theory Spec2Isabelle
  imports Complex_Main
begin

section \<open>Python values used by the Keithley2600 class\<close>

text \<open>
  The class \<^verbatim>\<open>Keithley2600\<close> (file \<^verbatim>\<open>keithley2600/Keithley2600.py\<close>) turns
  property accesses and method calls into text commands for a pyvisa resource and
  parses the text answers with the builtins \<^verbatim>\<open>float\<close>, \<^verbatim>\<open>int\<close>, \<^verbatim>\<open>bool\<close>,
  \<^verbatim>\<open>str.strip\<close> and \<^verbatim>\<open>str.split\<close>; it formats arguments with f-strings and waits
  with \<^verbatim>\<open>time.sleep\<close>. This section models those builtins (CPython 3, ASCII
  strings, which is what a pyvisa resource with its default encoding delivers).
\<close>

subsection \<open>Exceptions\<close>

text \<open>
  \<open>VisaIOError\<close> stands for any exception raised by the transport itself (its
  argument is the status code); the other three are raised by the builtins.
\<close>

datatype exn = ValueError | IndexError | OverflowError | VisaIOError int

subsection \<open>Floats\<close>

text \<open>
  A Python float is an IEEE 754 binary64 value. \<open>Fin m e\<close> is the finite value
  \<open>m * 2 ^ e\<close> in canonical form (\<open>m\<close> odd, or \<open>m = 0\<close> and \<open>e = 0\<close> for \<open>+0.0\<close>);
  \<open>NegZero\<close> is \<open>-0.0\<close>.
\<close>

datatype pyfloat = Fin int int | NegZero | PInf | NInf | NaN

text \<open>
  Numbers that the callers of the class pass to its setters: a bool (in Python a
  kind of int), an int or a float.
\<close>

datatype pynum = PBool bool | PInt int | PFloat pyfloat

text \<open>What the methods of the class return.\<close>

datatype pyval = VNone | VBool bool | VFloat pyfloat | VStr string | VTuple "pyval list"

subsection \<open>Integer logarithms and rounding of ratios\<close>

function ilog :: "nat \<Rightarrow> nat \<Rightarrow> nat" where
  "ilog b n = (if b < 2 \<or> n < b then 0 else Suc (ilog b (n div b)))"
  by pat_completeness auto
termination
  by (relation "measure (\<lambda>(b, n). n)") auto

declare ilog.simps [simp del]

text \<open>
  \<open>floor_log b x y\<close>, for positive \<open>x\<close> and \<open>y\<close> and \<open>b \<ge> 2\<close>, is the integer \<open>k\<close> with
  \<open>b ^ k \<le> x / y < b ^ (k + 1)\<close>: the difference of the two integer logarithms is
  \<open>k\<close> or \<open>k + 1\<close>, and one comparison decides.
\<close>

definition floor_log :: "nat \<Rightarrow> nat \<Rightarrow> nat \<Rightarrow> int" where
  "floor_log b x y =
     (let k = int (ilog b x) - int (ilog b y)
      in if (if 0 \<le> k then y * b ^ nat k \<le> x else y \<le> x * b ^ nat (- k)) then k else k - 1)"

text \<open>\<open>round_ratio x y\<close> is \<open>x / y\<close> rounded to the nearest integer, ties to even.\<close>

definition round_ratio :: "nat \<Rightarrow> nat \<Rightarrow> nat" where
  "round_ratio x y =
     (let q = x div y; r = x mod y
      in if 2 * r < y then q else if y < 2 * r then q + 1 else if even q then q else q + 1)"

text \<open>\<open>scaled_round b x y k\<close> is \<open>x / (y * b ^ k)\<close> rounded in the same way, for any integer \<open>k\<close>.\<close>

definition scaled_round :: "nat \<Rightarrow> nat \<Rightarrow> nat \<Rightarrow> int \<Rightarrow> nat" where
  "scaled_round b x y k =
     (if 0 \<le> k then round_ratio x (y * b ^ nat k) else round_ratio (x * b ^ nat (- k)) y)"

function canonical :: "nat \<Rightarrow> int \<Rightarrow> pyfloat" where
  "canonical m e =
     (if m = 0 then Fin 0 0
      else if even m then canonical (m div 2) (e + 1)
      else Fin (int m) e)"
  by pat_completeness auto
termination
  by (relation "measure (\<lambda>(m, e). m)") auto

declare canonical.simps [simp del]

text \<open>
  \<open>binary64 x y\<close> is the double nearest to the positive ratio \<open>x / y\<close> (round to
  nearest, ties to even): 53 significant bits, the exponent of the last bit not
  below \<open>-1074\<close> (subnormal numbers), and infinity from \<open>2 ^ 1024\<close> on.
\<close>

definition binary64 :: "nat \<Rightarrow> nat \<Rightarrow> pyfloat" where
  "binary64 x y =
     (let e = max (floor_log 2 x y - 52) (- 1074);
          m = scaled_round 2 x y e
      in if 971 < e \<or> (e = 971 \<and> 2 ^ 53 \<le> m) then PInf else canonical m e)"

text \<open>
  \<open>nearest_double n k\<close> is the float denoted by the decimal \<open>n * 10 ^ k\<close>: what the
  Python literals \<^verbatim>\<open>0.001\<close>, \<^verbatim>\<open>1e-3\<close> (\<open>n = 1\<close>, \<open>k = -3\<close>), \<^verbatim>\<open>2.5\<close> (\<open>n = 25\<close>,
  \<open>k = -1\<close>) and the strings given to \<^verbatim>\<open>float\<close> evaluate to.
\<close>

definition nearest_double :: "nat \<Rightarrow> int \<Rightarrow> pyfloat" where
  "nearest_double n k =
     (if n = 0 then Fin 0 0
      else if 0 \<le> k then binary64 (n * 10 ^ nat k) 1
      else binary64 n (10 ^ nat (- k)))"

fun negate :: "pyfloat \<Rightarrow> pyfloat" where
  "negate (Fin m e) = (if m = 0 then NegZero else Fin (- m) e)"
| "negate NegZero = Fin 0 0"
| "negate PInf = NInf"
| "negate NInf = PInf"
| "negate NaN = NaN"

subsection \<open>Strings: \<^verbatim>\<open>strip\<close>, \<^verbatim>\<open>split\<close>, digits\<close>

definition is_digit :: "char \<Rightarrow> bool" where
  "is_digit c = (c \<in> set ''0123456789'')"

text \<open>The whitespace that \<^verbatim>\<open>float\<close> skips at both ends of an ASCII string.\<close>

definition c_isspace :: "char \<Rightarrow> bool" where
  "c_isspace c = (c \<in> set [CHR '' '', CHR 0x09, CHR 0x0A, CHR 0x0B, CHR 0x0C, CHR 0x0D])"

text \<open>
  The ASCII characters for which \<^verbatim>\<open>str.isspace\<close> holds: \<^verbatim>\<open>str.strip()\<close> removes
  these, the four separators \<^verbatim>\<open>\x1c\<close> to \<^verbatim>\<open>\x1f\<close> included.
\<close>

definition str_isspace :: "char \<Rightarrow> bool" where
  "str_isspace c = (c_isspace c \<or> c \<in> set [CHR 0x1C, CHR 0x1D, CHR 0x1E, CHR 0x1F])"

definition strip_with :: "(char \<Rightarrow> bool) \<Rightarrow> string \<Rightarrow> string" where
  "strip_with P s = rev (dropWhile P (rev (dropWhile P s)))"

definition py_strip :: "string \<Rightarrow> string" where
  "py_strip s = strip_with str_isspace s"

text \<open>\<^verbatim>\<open>s.split(",")\<close>: never the empty list, one more part than there are commas.\<close>

fun py_split :: "char \<Rightarrow> string \<Rightarrow> string list" where
  "py_split sep [] = [[]]"
| "py_split sep (c # cs) =
     (if c = sep then [] # py_split sep cs
      else (case py_split sep cs of [] \<Rightarrow> [[c]] | p # ps \<Rightarrow> (c # p) # ps))"

text \<open>Python's \<^verbatim>\<open>xs[i]\<close> for a non-negative index.\<close>

definition py_index :: "'a list \<Rightarrow> nat \<Rightarrow> exn + 'a" where
  "py_index xs i = (if i < length xs then Inr (xs ! i) else Inl IndexError)"

definition digit_val :: "char \<Rightarrow> nat" where
  "digit_val c = of_char c - 48"

definition nat_of_digits :: "string \<Rightarrow> nat" where
  "nat_of_digits ds = foldl (\<lambda>acc c. 10 * acc + digit_val c) 0 ds"

definition digit_char :: "nat \<Rightarrow> char" where
  "digit_char d = ''0123456789'' ! d"

function digits_of :: "nat \<Rightarrow> string" where
  "digits_of n = (if n < 10 then [digit_char n] else digits_of (n div 10) @ [digit_char (n mod 10)])"
  by pat_completeness auto
termination
  by (relation "measure (\<lambda>n. n)") auto

declare digits_of.simps [simp del]

subsection \<open>\<^verbatim>\<open>float(s)\<close>\<close>

text \<open>
  CPython's \<^verbatim>\<open>float\<close> on a string: strip whitespace; an underscore is accepted
  only between two digits; then an optional sign followed by \<^verbatim>\<open>inf\<close>,
  \<^verbatim>\<open>infinity\<close> or \<^verbatim>\<open>nan\<close> in any letter case, or by a decimal number (digits
  with an optional point, at least one digit, and an optional exponent). Anything
  else, the empty string included, raises \<^verbatim>\<open>ValueError\<close>.
\<close>

fun underscores_ok :: "char \<Rightarrow> string \<Rightarrow> bool" where
  "underscores_ok prev [] = (prev \<noteq> CHR ''_'')"
| "underscores_ok prev (c # cs) =
     ((if c = CHR ''_'' then is_digit prev
       else if prev = CHR ''_'' then is_digit c else True)
      \<and> underscores_ok c cs)"

definition parse_sign :: "string \<Rightarrow> bool \<times> string" where
  "parse_sign s =
     (case s of
        [] \<Rightarrow> (False, [])
      | c # cs \<Rightarrow> if c = CHR ''-'' then (True, cs) else if c = CHR ''+'' then (False, cs) else (False, s))"

definition ascii_lower :: "char \<Rightarrow> char" where
  "ascii_lower c =
     (if c = CHR ''I'' then CHR ''i'' else if c = CHR ''N'' then CHR ''n''
      else if c = CHR ''F'' then CHR ''f'' else if c = CHR ''T'' then CHR ''t''
      else if c = CHR ''Y'' then CHR ''y'' else if c = CHR ''A'' then CHR ''a'' else c)"

definition parse_exponent :: "string \<Rightarrow> int option" where
  "parse_exponent r =
     (case r of
        [] \<Rightarrow> Some 0
      | c # cs \<Rightarrow>
          if c = CHR ''e'' \<or> c = CHR ''E'' then
            (case parse_sign cs of
               (neg, ds) \<Rightarrow>
                 if ds \<noteq> [] \<and> list_all is_digit ds
                 then Some (if neg then - int (nat_of_digits ds) else int (nat_of_digits ds))
                 else None)
          else None)"

text \<open>\<open>parse_decimal\<close> returns \<open>(n, k)\<close> for the number \<open>n * 10 ^ k\<close>.\<close>

definition parse_decimal :: "string \<Rightarrow> (nat \<times> int) option" where
  "parse_decimal t =
     (let ip = takeWhile is_digit t;
          r1 = dropWhile is_digit t;
          dot = (case r1 of [] \<Rightarrow> False | c # cs \<Rightarrow> c = CHR ''.'');
          fp = (if dot then takeWhile is_digit (tl r1) else []);
          r2 = (if dot then dropWhile is_digit (tl r1) else r1)
      in if ip = [] \<and> fp = [] then None
         else (case parse_exponent r2 of
                 None \<Rightarrow> None
               | Some ex \<Rightarrow> Some (nat_of_digits (ip @ fp), ex - int (length fp))))"

definition py_float :: "string \<Rightarrow> exn + pyfloat" where
  "py_float s =
     (let t = strip_with c_isspace s
      in if \<not> underscores_ok (CHR 0x00) t then Inl ValueError
         else (case parse_sign (filter (\<lambda>c. c \<noteq> CHR ''_'') t) of
                 (neg, u) \<Rightarrow>
                   if map ascii_lower u = ''inf'' \<or> map ascii_lower u = ''infinity''
                   then Inr (if neg then NInf else PInf)
                   else if map ascii_lower u = ''nan'' then Inr NaN
                   else (case parse_decimal u of
                           None \<Rightarrow> Inl ValueError
                         | Some (n, k) \<Rightarrow>
                             Inr (if neg then negate (nearest_double n k)
                                  else nearest_double n k))))"

subsection \<open>\<^verbatim>\<open>int(x)\<close> and \<^verbatim>\<open>bool(n)\<close>\<close>

text \<open>
  \<^verbatim>\<open>int\<close> of a float truncates towards zero; it raises \<^verbatim>\<open>OverflowError\<close> on an
  infinity and \<^verbatim>\<open>ValueError\<close> on a NaN.
\<close>

fun py_int :: "pyfloat \<Rightarrow> exn + int" where
  "py_int (Fin m e) =
     Inr (if 0 \<le> e then m * 2 ^ nat e
          else if 0 \<le> m then m div 2 ^ nat (- e)
          else - ((- m) div 2 ^ nat (- e)))"
| "py_int NegZero = Inr 0"
| "py_int PInf = Inl OverflowError"
| "py_int NInf = Inl OverflowError"
| "py_int NaN = Inl ValueError"

definition py_bool :: "int \<Rightarrow> bool" where
  "py_bool n = (n \<noteq> 0)"

text \<open>\<^verbatim>\<open>int(flag)\<close> for a bool.\<close>

definition int_of_bool :: "bool \<Rightarrow> int" where
  "int_of_bool b = (if b then 1 else 0)"

subsection \<open>\<^verbatim>\<open>str(x)\<close> of a number, as an f-string renders it\<close>

definition py_str_int :: "int \<Rightarrow> string" where
  "py_str_int n = (if n < 0 then ''-'' @ digits_of (nat (- n)) else digits_of (nat n))"

text \<open>
  \<open>floor_scaled b x y k\<close> is \<open>x / (y * b ^ k)\<close> rounded down, for any integer \<open>k\<close>.
\<close>

definition floor_scaled :: "nat \<Rightarrow> nat \<Rightarrow> nat \<Rightarrow> int \<Rightarrow> nat" where
  "floor_scaled b x y k =
     (if 0 \<le> k then x div (y * b ^ nat k) else (x * b ^ nat (- k)) div y)"

text \<open>
  \<^verbatim>\<open>repr\<close> of a float is the shortest decimal that \<^verbatim>\<open>float\<close> reads back as the
  same double and, among the decimals of that length, the one nearest to it (a
  tie goes to the even last digit). \<open>shortest_decimal n x y p f\<close> tries \<open>n\<close>,
  \<open>n + 1\<close>, \dots, 17 significant digits for the double \<open>f\<close> of value \<open>x / y\<close>,
  where \<open>10 ^ p \<le> x / y < 10 ^ (p + 1)\<close>. With \<open>n\<close> digits, the candidates are
  \<open>x / y\<close> cut off after \<open>n\<close> digits and the next decimal of \<open>n\<close> digits above it:
  the interval of the numbers that read back as \<open>f\<close> holds a decimal of \<open>n\<close>
  digits only if it holds one of these two (below a power of two that interval
  is half as wide as above it, so the nearer candidate may lie outside while the
  farther one lies inside). The result \<open>(d, k)\<close> stands for the decimal
  \<open>d * 10 ^ k\<close>.
\<close>

function shortest_decimal :: "nat \<Rightarrow> nat \<Rightarrow> nat \<Rightarrow> int \<Rightarrow> pyfloat \<Rightarrow> nat \<times> int" where
  "shortest_decimal n x y p f =
     (let k = p + 1 - int n;
          lo = floor_scaled 10 x y k;
          lo_ok = (nearest_double lo k = f);
          hi_ok = (nearest_double (lo + 1) k = f)
      in if 17 \<le> n \<or> (lo_ok \<and> hi_ok) then (scaled_round 10 x y k, k)
         else if lo_ok then (lo, k)
         else if hi_ok then (lo + 1, k)
         else shortest_decimal (Suc n) x y p f)"
  by pat_completeness auto
termination
  by (relation "measure (\<lambda>(n, x, y, p, f). 17 - n)") auto

declare shortest_decimal.simps [simp del]

definition strip_trailing_zeros :: "string \<Rightarrow> string" where
  "strip_trailing_zeros ds = rev (dropWhile (\<lambda>c. c = CHR ''0'') (rev ds))"

definition exponent_digits :: "nat \<Rightarrow> string" where
  "exponent_digits n = (if n < 10 then ''0'' @ digits_of n else digits_of n)"

text \<open>
  The layout of \<^verbatim>\<open>repr\<close>: with digits \<open>ds\<close> and the decimal point \<open>decpt\<close> places
  after their start, exponent notation when \<open>decpt \<le> -4\<close> or \<open>16 < decpt\<close>, otherwise
  positional notation with at least one digit after the point.
\<close>

definition repr_layout :: "string \<Rightarrow> int \<Rightarrow> string" where
  "repr_layout ds decpt =
     (if decpt \<le> - 4 \<or> 16 < decpt then
        take 1 ds @ (if drop 1 ds = [] then [] else ''.'' @ drop 1 ds) @ ''e''
          @ (if decpt - 1 < 0 then ''-'' else ''+'') @ exponent_digits (nat \<bar>decpt - 1\<bar>)
      else if decpt \<le> 0 then ''0.'' @ replicate (nat (- decpt)) (CHR ''0'') @ ds
      else if decpt < int (length ds) then take (nat decpt) ds @ ''.'' @ drop (nat decpt) ds
      else ds @ replicate (nat (decpt - int (length ds))) (CHR ''0'') @ ''.0'')"

text \<open>\<open>repr_decimal d k\<close> lays out the decimal \<open>d * 10 ^ k\<close>.\<close>

definition repr_decimal :: "nat \<Rightarrow> int \<Rightarrow> string" where
  "repr_decimal d k =
     repr_layout (strip_trailing_zeros (digits_of d)) (k + int (length (digits_of d)))"

text \<open>\<open>repr_finite m e\<close> renders the positive double \<open>m * 2 ^ e\<close>.\<close>

definition repr_finite :: "nat \<Rightarrow> int \<Rightarrow> string" where
  "repr_finite m e =
     (let x = (if 0 \<le> e then m * 2 ^ nat e else m);
          y = (if 0 \<le> e then 1 else 2 ^ nat (- e))
      in (case shortest_decimal 1 x y (floor_log 10 x y) (Fin (int m) e) of
            (d, k) \<Rightarrow> repr_decimal d k))"

fun float_repr :: "pyfloat \<Rightarrow> string" where
  "float_repr (Fin m e) =
     (if m = 0 then ''0.0''
      else if m < 0 then ''-'' @ repr_finite (nat (- m)) e
      else repr_finite (nat m) e)"
| "float_repr NegZero = ''-0.0''"
| "float_repr PInf = ''inf''"
| "float_repr NInf = ''-inf''"
| "float_repr NaN = ''nan''"

text \<open>\<open>py_format v\<close> is what \<^verbatim>\<open>f'{v}'\<close> produces.\<close>

fun py_format :: "pynum \<Rightarrow> string" where
  "py_format (PBool b) = (if b then ''True'' else ''False'')"
| "py_format (PInt n) = py_str_int n"
| "py_format (PFloat f) = float_repr f"

subsection \<open>\<^verbatim>\<open>time.sleep\<close>\<close>

text \<open>
  \<^verbatim>\<open>time.sleep(secs)\<close> converts the float to a 64-bit count of nanoseconds: a NaN
  raises \<^verbatim>\<open>ValueError\<close>, a count outside the 64-bit range \<^verbatim>\<open>OverflowError\<close>, a
  negative one \<^verbatim>\<open>ValueError\<close>. (Whether the operating system then accepts a wait
  of centuries is not part of the model.)
\<close>

fun at_least_2_63 :: "pyfloat \<Rightarrow> bool" where
  "at_least_2_63 (Fin m e) = (0 \<le> e \<and> 2 ^ 63 \<le> m * 2 ^ nat e)"
| "at_least_2_63 PInf = True"
| "at_least_2_63 f = False"

definition nanoseconds :: "nat \<Rightarrow> int \<Rightarrow> pyfloat" where
  "nanoseconds m e =
     (if 0 \<le> e then binary64 (m * 2 ^ nat e * 10 ^ 9) 1 else binary64 (m * 10 ^ 9) (2 ^ nat (- e)))"

fun py_sleep :: "pyfloat \<Rightarrow> exn + unit" where
  "py_sleep NaN = Inl ValueError"
| "py_sleep PInf = Inl OverflowError"
| "py_sleep NInf = Inl OverflowError"
| "py_sleep NegZero = Inr ()"
| "py_sleep (Fin m e) =
     (if m = 0 then Inr ()
      else if 0 < m then (if at_least_2_63 (nanoseconds (nat m) e) then Inl OverflowError else Inr ())
      else (if at_least_2_63 (nanoseconds (nat (- m)) e) \<and> nanoseconds (nat (- m)) e \<noteq> Fin 1 63
            then Inl OverflowError else Inl ValueError))"

declare py_sleep.simps [simp del]

section \<open>The transport and the session\<close>

text \<open>
  The pyvisa resource is outside the class. Every call made on it, and every
  \<^verbatim>\<open>time.sleep\<close>, is recorded in a history; the resource itself is a function that
  answers a call given the history so far: \<open>Inr r\<close> is the returned string (ignored
  after \<^verbatim>\<open>write\<close> and \<^verbatim>\<open>close\<close>), \<open>Inl c\<close> means that the call raised.
\<close>

datatype event = Write string | Query string | Read | Close | Sleep pyfloat

type_synonym transport = "event list \<Rightarrow> event \<Rightarrow> int + string"

text \<open>
  \<^verbatim>\<open>__init__\<close> stores one attribute, \<^verbatim>\<open>self.smu\<close>; every other name assigned
  through \<^verbatim>\<open>self\<close> is a property of the class.
\<close>

record session =
  smu :: transport

text \<open>
  A method takes the history and returns its result, an exception or a value,
  with the extended history.
\<close>

type_synonym 'a action = "event list \<Rightarrow> (exn + 'a) \<times> event list"

definition return :: "'a \<Rightarrow> 'a action" where
  "return a h = (Inr a, h)"

definition bind :: "'a action \<Rightarrow> ('a \<Rightarrow> 'b action) \<Rightarrow> 'b action" where
  "bind f g h = (case f h of (Inl e, h') \<Rightarrow> (Inl e, h') | (Inr a, h') \<Rightarrow> g a h')"

text \<open>A builtin that may raise but touches neither the transport nor the clock.\<close>

definition pure :: "exn + 'a \<Rightarrow> 'a action" where
  "pure r h = (r, h)"

definition call :: "session \<Rightarrow> event \<Rightarrow> string action" where
  "call self ev h =
     ((case smu self h ev of Inl c \<Rightarrow> Inl (VisaIOError c) | Inr r \<Rightarrow> Inr r), h @ [ev])"

definition smu_write :: "session \<Rightarrow> string \<Rightarrow> unit action" where
  "smu_write self cmd = bind (call self (Write cmd)) (\<lambda>_. return ())"

definition smu_query :: "session \<Rightarrow> string \<Rightarrow> string action" where
  "smu_query self cmd = call self (Query cmd)"

definition smu_read :: "session \<Rightarrow> string action" where
  "smu_read self = call self Read"

definition smu_close :: "session \<Rightarrow> unit action" where
  "smu_close self = bind (call self Close) (\<lambda>_. return ())"

definition time_sleep :: "pyfloat \<Rightarrow> unit action" where
  "time_sleep d h = (case py_sleep d of Inl e \<Rightarrow> (Inl e, h) | Inr u \<Rightarrow> (Inr (), h @ [Sleep d]))"

section \<open>The methods of \<^verbatim>\<open>Keithley2600\<close>\<close>

subsection \<open>Properties\<close>

text \<open>
  Each property \<^verbatim>\<open>p\<close> of the class is a getter \<open>p_get\<close> and a setter \<open>p_set\<close>. The
  setters take a number; the setter of \<^verbatim>\<open>output\<close> takes the bool of its docstring
  and converts it with \<^verbatim>\<open>int\<close>.
\<close>

definition output_get :: "session \<Rightarrow> bool action" where
  "output_get self =
     bind (smu_query self ''print(smua.source.output)'') (\<lambda>state.
     bind (pure (py_float (py_strip state))) (\<lambda>f.
     bind (pure (py_int f)) (\<lambda>n.
     return (py_bool n))))"

definition output_set :: "session \<Rightarrow> bool \<Rightarrow> unit action" where
  "output_set self flag = smu_write self (''smua.source.output = '' @ py_str_int (int_of_bool flag))"

definition source_function_get :: "session \<Rightarrow> string action" where
  "source_function_get self =
     bind (smu_query self ''print(smua.source.func)'') (\<lambda>response.
     return response)"

definition source_function_set :: "session \<Rightarrow> pynum \<Rightarrow> unit action" where
  "source_function_set self func = smu_write self (''smua.source.func = '' @ py_format func)"

definition nplc_get :: "session \<Rightarrow> pyfloat action" where
  "nplc_get self =
     bind (smu_query self ''print(smua.measure.nplc)'') (\<lambda>response.
     pure (py_float (py_strip response)))"

definition nplc_set :: "session \<Rightarrow> pynum \<Rightarrow> unit action" where
  "nplc_set self NPLC = smu_write self (''smua.measure.nplc = '' @ py_format NPLC)"

definition delay_get :: "session \<Rightarrow> pyfloat action" where
  "delay_get self =
     bind (smu_query self ''print(smua.measure.delay)'') (\<lambda>response.
     pure (py_float (py_strip response)))"

definition delay_set :: "session \<Rightarrow> pynum \<Rightarrow> unit action" where
  "delay_set self delay = smu_write self (''smua.measure.delay = '' @ py_format delay)"

definition range_i_get :: "session \<Rightarrow> pyfloat action" where
  "range_i_get self =
     bind (smu_query self ''print(smua.measure.rangei)'') (\<lambda>response.
     pure (py_float (py_strip response)))"

definition range_i_set :: "session \<Rightarrow> pynum \<Rightarrow> unit action" where
  "range_i_set self i_range = smu_write self (''smua.measure.rangei = '' @ py_format i_range)"

definition range_v_get :: "session \<Rightarrow> pyfloat action" where
  "range_v_get self =
     bind (smu_query self ''print(smua.measure.rangev)'') (\<lambda>response.
     pure (py_float (py_strip response)))"

definition range_v_set :: "session \<Rightarrow> pynum \<Rightarrow> unit action" where
  "range_v_set self v_range = smu_write self (''smua.measure.rangev = '' @ py_format v_range)"

definition autorange_i_get :: "session \<Rightarrow> bool action" where
  "autorange_i_get self =
     bind (smu_query self ''print(smua.measure.autorangei)'') (\<lambda>response.
     bind (pure (py_float (py_strip response))) (\<lambda>f.
     bind (pure (py_int f)) (\<lambda>n.
     return (py_bool n))))"

definition autorange_i_set :: "session \<Rightarrow> pynum \<Rightarrow> unit action" where
  "autorange_i_set self autorange =
     smu_write self (''smua.measure.autorangei = '' @ py_format autorange)"

definition autorange_v_get :: "session \<Rightarrow> bool action" where
  "autorange_v_get self =
     bind (smu_query self ''print(smua.measure.autorangev)'') (\<lambda>response.
     bind (pure (py_float (py_strip response))) (\<lambda>f.
     bind (pure (py_int f)) (\<lambda>n.
     return (py_bool n))))"

definition autorange_v_set :: "session \<Rightarrow> pynum \<Rightarrow> unit action" where
  "autorange_v_set self autorange =
     smu_write self (''smua.measure.autorangev = '' @ py_format autorange)"

definition level_v_get :: "session \<Rightarrow> pyfloat action" where
  "level_v_get self =
     bind (smu_query self ''print(smua.source.levelv)'') (\<lambda>response.
     pure (py_float (py_strip response)))"

definition level_v_set :: "session \<Rightarrow> pynum \<Rightarrow> unit action" where
  "level_v_set self v_level = smu_write self (''smua.source.levelv = '' @ py_format v_level)"

definition level_i_get :: "session \<Rightarrow> pyfloat action" where
  "level_i_get self =
     bind (smu_query self ''print(smua.source.leveli)'') (\<lambda>response.
     pure (py_float (py_strip response)))"

definition level_i_set :: "session \<Rightarrow> pynum \<Rightarrow> unit action" where
  "level_i_set self i_level = smu_write self (''smua.source.leveli = '' @ py_format i_level)"

definition limit_i_get :: "session \<Rightarrow> pyfloat action" where
  "limit_i_get self =
     bind (smu_query self ''print(smua.source.limiti)'') (\<lambda>response.
     pure (py_float (py_strip response)))"

definition limit_i_set :: "session \<Rightarrow> pynum \<Rightarrow> unit action" where
  "limit_i_set self i_limit = smu_write self (''smua.source.limiti = '' @ py_format i_limit)"

definition limit_v_get :: "session \<Rightarrow> pyfloat action" where
  "limit_v_get self =
     bind (smu_query self ''print(smua.source.limitv)'') (\<lambda>response.
     pure (py_float (py_strip response)))"

definition limit_v_set :: "session \<Rightarrow> pynum \<Rightarrow> unit action" where
  "limit_v_set self v_limit = smu_write self (''smua.source.limitv = '' @ py_format v_limit)"

subsection \<open>Measurements and identification\<close>

definition measure_resistance :: "session \<Rightarrow> pyfloat action" where
  "measure_resistance self =
     bind (smu_query self ''print(smua.measure.r())'') (\<lambda>response.
     pure (py_float (py_strip response)))"

definition measure_iv :: "session \<Rightarrow> (pyfloat \<times> pyfloat) action" where
  "measure_iv self =
     bind (smu_write self ''ireading, vreading = smua.measure.iv()'') (\<lambda>_.
     bind (delay_get self) (\<lambda>d.
     bind (time_sleep d) (\<lambda>_.
     bind (smu_query self ''printnumber(ireading,vreading)'') (\<lambda>r.
     bind (pure (py_index (py_split (CHR '','') r) 0)) (\<lambda>r0.
     bind (pure (py_float r0)) (\<lambda>i.
     bind (pure (py_index (py_split (CHR '','') r) 1)) (\<lambda>r1.
     bind (pure (py_float r1)) (\<lambda>v.
     return (i, v)))))))))"

definition measure_power :: "session \<Rightarrow> pyfloat action" where
  "measure_power self =
     bind (smu_query self ''print(smua.measure.p())'') (\<lambda>response.
     pure (py_float (py_strip response)))"

definition reset_device :: "session \<Rightarrow> unit action" where
  "reset_device self = smu_write self ''smua.reset()''"

definition device_id :: "session \<Rightarrow> string action" where
  "device_id self =
     bind (smu_write self ''print(smua.idn())'') (\<lambda>_.
     smu_read self)"

subsection \<open>Setup routines, construction and destruction\<close>

text \<open>The float literals \<^verbatim>\<open>1e-3\<close> and \<^verbatim>\<open>0.1\<close> of the source.\<close>

definition lit_1e_3 :: pyfloat where
  "lit_1e_3 = nearest_double 1 (- 3)"

definition lit_0_1 :: pyfloat where
  "lit_0_1 = nearest_double 1 (- 1)"

definition default_setup :: "session \<Rightarrow> unit action" where
  "default_setup self =
     bind (source_function_set self (PInt 1)) (\<lambda>_.
     bind (level_v_set self (PInt 0)) (\<lambda>_.
     bind (autorange_i_set self (PInt 1)) (\<lambda>_.
     bind (autorange_v_set self (PInt 1)) (\<lambda>_.
     output_set self False))))"

definition setup_for_resistance_measurement :: "session \<Rightarrow> unit action" where
  "setup_for_resistance_measurement self =
     bind (smu_write self ''smua.measure.r(smua.nvbuffer1)'') (\<lambda>_.
     bind (reset_device self) (\<lambda>_.
     bind (source_function_set self (PInt 0)) (\<lambda>_.
     bind (level_i_set self (PFloat lit_1e_3)) (\<lambda>_.
     bind (autorange_v_set self (PInt 1)) (\<lambda>_.
     bind (nplc_set self (PInt 5)) (\<lambda>_.
     bind (delay_set self (PFloat lit_0_1)) (\<lambda>_.
     bind (range_v_set self (PInt 20)) (\<lambda>_.
     range_i_set self (PFloat lit_1e_3)))))))))"

definition setup_for_IV_measurement :: "session \<Rightarrow> pynum \<Rightarrow> pynum \<Rightarrow> unit action" where
  "setup_for_IV_measurement self iLimit NPLC =
     bind (reset_device self) (\<lambda>_.
     bind (source_function_set self (PInt 1)) (\<lambda>_.
     bind (level_v_set self (PInt 0)) (\<lambda>_.
     bind (autorange_i_set self (PInt 1)) (\<lambda>_.
     bind (autorange_v_set self (PInt 1)) (\<lambda>_.
     bind (limit_i_set self iLimit) (\<lambda>_.
     nplc_set self NPLC))))))"

text \<open>
  \<^verbatim>\<open>Keithley2600(device, delay)\<close>: \<^verbatim>\<open>__init__\<close> returns the session when none of
  its statements raised.
\<close>

definition init :: "transport \<Rightarrow> pynum \<Rightarrow> session action" where
  "init device delay =
     bind (reset_device \<lparr>smu = device\<rparr>) (\<lambda>_.
     bind (default_setup \<lparr>smu = device\<rparr>) (\<lambda>_.
     bind (delay_set \<lparr>smu = device\<rparr> delay) (\<lambda>_.
     return \<lparr>smu = device\<rparr>)))"

text \<open>\<^verbatim>\<open>__del__\<close>: three statements, no \<^verbatim>\<open>try\<close>.\<close>

definition del :: "session \<Rightarrow> unit action" where
  "del self =
     bind (output_set self False) (\<lambda>_.
     bind (reset_device self) (\<lambda>_.
     smu_close self))"

section \<open>Accessors as data\<close>

text \<open>
  To speak about every accessor at once: the properties that take a number, and
  an accessor, which reads or assigns \<^verbatim>\<open>output\<close> or one of those properties.
\<close>

datatype property =
  Source_function | Nplc | Delay | Range_i | Range_v | Autorange_i | Autorange_v
  | Level_v | Level_i | Limit_i | Limit_v

datatype accessor = Get_output | Set_output bool | Get property | Set property pynum

fun getter :: "session \<Rightarrow> property \<Rightarrow> pyval action" where
  "getter self Source_function = bind (source_function_get self) (\<lambda>r. return (VStr r))"
| "getter self Nplc = bind (nplc_get self) (\<lambda>f. return (VFloat f))"
| "getter self Delay = bind (delay_get self) (\<lambda>f. return (VFloat f))"
| "getter self Range_i = bind (range_i_get self) (\<lambda>f. return (VFloat f))"
| "getter self Range_v = bind (range_v_get self) (\<lambda>f. return (VFloat f))"
| "getter self Autorange_i = bind (autorange_i_get self) (\<lambda>b. return (VBool b))"
| "getter self Autorange_v = bind (autorange_v_get self) (\<lambda>b. return (VBool b))"
| "getter self Level_v = bind (level_v_get self) (\<lambda>f. return (VFloat f))"
| "getter self Level_i = bind (level_i_get self) (\<lambda>f. return (VFloat f))"
| "getter self Limit_i = bind (limit_i_get self) (\<lambda>f. return (VFloat f))"
| "getter self Limit_v = bind (limit_v_get self) (\<lambda>f. return (VFloat f))"

fun setter :: "session \<Rightarrow> property \<Rightarrow> pynum \<Rightarrow> unit action" where
  "setter self Source_function v = source_function_set self v"
| "setter self Nplc v = nplc_set self v"
| "setter self Delay v = delay_set self v"
| "setter self Range_i v = range_i_set self v"
| "setter self Range_v v = range_v_set self v"
| "setter self Autorange_i v = autorange_i_set self v"
| "setter self Autorange_v v = autorange_v_set self v"
| "setter self Level_v v = level_v_set self v"
| "setter self Level_i v = level_i_set self v"
| "setter self Limit_i v = limit_i_set self v"
| "setter self Limit_v v = limit_v_set self v"

fun access :: "session \<Rightarrow> accessor \<Rightarrow> pyval action" where
  "access self Get_output = bind (output_get self) (\<lambda>b. return (VBool b))"
| "access self (Set_output flag) = bind (output_set self flag) (\<lambda>_. return VNone)"
| "access self (Get p) = getter self p"
| "access self (Set p v) = bind (setter self p v) (\<lambda>_. return VNone)"

text \<open>The attribute of the instrument's \<^verbatim>\<open>smua\<close> channel behind each property.\<close>

fun tsp_path :: "property \<Rightarrow> string" where
  "tsp_path Source_function = ''smua.source.func''"
| "tsp_path Nplc = ''smua.measure.nplc''"
| "tsp_path Delay = ''smua.measure.delay''"
| "tsp_path Range_i = ''smua.measure.rangei''"
| "tsp_path Range_v = ''smua.measure.rangev''"
| "tsp_path Autorange_i = ''smua.measure.autorangei''"
| "tsp_path Autorange_v = ''smua.measure.autorangev''"
| "tsp_path Level_v = ''smua.source.levelv''"
| "tsp_path Level_i = ''smua.source.leveli''"
| "tsp_path Limit_i = ''smua.source.limiti''"
| "tsp_path Limit_v = ''smua.source.limitv''"

definition output_path :: string where
  "output_path = ''smua.source.output''"

text \<open>The one call on the transport that an accessor makes.\<close>

fun request :: "accessor \<Rightarrow> event" where
  "request Get_output = Query (''print('' @ output_path @ '')'')"
| "request (Set_output flag) = Write (output_path @ '' = '' @ (if flag then ''1'' else ''0''))"
| "request (Get p) = Query (''print('' @ tsp_path p @ '')'')"
| "request (Set p v) = Write (tsp_path p @ '' = '' @ py_format v)"

section \<open>Vocabulary of the statements\<close>

text \<open>
  What a getter makes of the answer to its query: a float, a flag (float, then
  int, then bool), or the answer as it came.
\<close>

datatype kind = Float_valued | Flag_like | Raw_string

fun kind_of :: "property \<Rightarrow> kind" where
  "kind_of Source_function = Raw_string"
| "kind_of Autorange_i = Flag_like"
| "kind_of Autorange_v = Flag_like"
| "kind_of Nplc = Float_valued"
| "kind_of Delay = Float_valued"
| "kind_of Range_i = Float_valued"
| "kind_of Range_v = Float_valued"
| "kind_of Level_v = Float_valued"
| "kind_of Level_i = Float_valued"
| "kind_of Limit_i = Float_valued"
| "kind_of Limit_v = Float_valued"

fun reads :: "accessor \<Rightarrow> kind option" where
  "reads Get_output = Some Flag_like"
| "reads (Get p) = Some (kind_of p)"
| "reads (Set_output flag) = None"
| "reads (Set p v) = None"

text \<open>The single returned token parsed as a floating-point number.\<close>

definition parse_float_token :: "string \<Rightarrow> exn + pyval" where
  "parse_float_token r =
     (case py_float (py_strip r) of Inl e \<Rightarrow> Inl e | Inr f \<Rightarrow> Inr (VFloat f))"

text \<open>The token parsed as a number, truncated to an integer, true when not zero.\<close>

definition parse_flag_token :: "string \<Rightarrow> exn + pyval" where
  "parse_flag_token r =
     (case py_float (py_strip r) of
        Inl e \<Rightarrow> Inl e
      | Inr f \<Rightarrow> (case py_int f of Inl e \<Rightarrow> Inl e | Inr n \<Rightarrow> Inr (VBool (n \<noteq> 0))))"

fun parse_as :: "kind \<Rightarrow> string \<Rightarrow> exn + pyval" where
  "parse_as Float_valued r = parse_float_token r"
| "parse_as Flag_like r = parse_flag_token r"
| "parse_as Raw_string r = Inr (VStr r)"

text \<open>
  \<open>decode a x\<close> is the outcome of the accessor \<open>a\<close> as a function of the transport's
  reaction \<open>x\<close> to its one call.
\<close>

fun decode :: "accessor \<Rightarrow> int + string \<Rightarrow> exn + pyval" where
  "decode a (Inl c) = Inl (VisaIOError c)"
| "decode a (Inr r) = (case reads a of None \<Rightarrow> Inr VNone | Some k \<Rightarrow> parse_as k r)"

text \<open>
  The two composite setup routines as lists of primitive steps: \<^verbatim>\<open>reset_device\<close>
  and assignments to properties, in the order of the routines' bodies.
\<close>

datatype primitive = Reset_device | Assign property pynum

fun run_primitive :: "session \<Rightarrow> primitive \<Rightarrow> unit action" where
  "run_primitive self Reset_device = reset_device self"
| "run_primitive self (Assign p v) = setter self p v"

fun run_all :: "session \<Rightarrow> primitive list \<Rightarrow> unit action" where
  "run_all self [] = return ()"
| "run_all self (x # xs) = bind (run_primitive self x) (\<lambda>_. run_all self xs)"

fun primitive_command :: "primitive \<Rightarrow> string" where
  "primitive_command Reset_device = ''smua.reset()''"
| "primitive_command (Assign p v) = tsp_path p @ '' = '' @ py_format v"

definition resistance_settings :: "primitive list" where
  "resistance_settings =
     [Reset_device, Assign Source_function (PInt 0), Assign Level_i (PFloat lit_1e_3),
      Assign Autorange_v (PInt 1), Assign Nplc (PInt 5), Assign Delay (PFloat lit_0_1),
      Assign Range_v (PInt 20), Assign Range_i (PFloat lit_1e_3)]"

definition iv_settings :: "pynum \<Rightarrow> pynum \<Rightarrow> primitive list" where
  "iv_settings iLimit NPLC =
     [Reset_device, Assign Source_function (PInt 1), Assign Level_v (PInt 0),
      Assign Autorange_i (PInt 1), Assign Autorange_v (PInt 1), Assign Limit_i iLimit,
      Assign Nplc NPLC]"

text \<open>The commands of \<^verbatim>\<open>measure_iv\<close> and the test for a query in a history.\<close>

definition iv_trigger :: string where
  "iv_trigger = ''ireading, vreading = smua.measure.iv()''"

definition iv_readout :: string where
  "iv_readout = ''printnumber(ireading,vreading)''"

fun is_query :: "event \<Rightarrow> bool" where
  "is_query (Query c) = True"
| "is_query ev = False"

section \<open>Transports for examples\<close>

text \<open>
  \<open>mock tbl\<close> accepts every call; it answers a query with the string that the
  table gives for the command, and with the empty string when the table has none.
  \<open>canned r\<close> answers every query with \<open>r\<close>. \<open>refusing cmd\<close> raises on the write
  of \<open>cmd\<close> (with the status code of a timeout) and accepts every other call.
\<close>

definition mock :: "(string \<times> string) list \<Rightarrow> transport" where
  "mock tbl h ev =
     (case ev of
        Query c \<Rightarrow> (case map_of tbl c of None \<Rightarrow> Inr [] | Some r \<Rightarrow> Inr r)
      | _ \<Rightarrow> Inr [])"

text \<open>
  \<open>iv_mock r\<close> answers the query of the measure delay with \<^verbatim>\<open>0.1\<close> and the read-out
  query of \<^verbatim>\<open>measure_iv\<close> with \<open>r\<close>.
\<close>

definition iv_mock :: "string \<Rightarrow> transport" where
  "iv_mock r = mock [(''print(smua.measure.delay)'', ''0.1''), (''printnumber(ireading,vreading)'', r)]"

definition canned :: "string \<Rightarrow> transport" where
  "canned r h ev = Inr r"

definition refusing :: "string \<Rightarrow> transport" where
  "refusing cmd h ev = (if ev = Write cmd then Inl (- 1073807339) else Inr [])"

definition writes_succeed :: "transport \<Rightarrow> bool" where
  "writes_succeed t = (\<forall>h c. \<exists>r. t h (Write c) = Inr r)"

section \<open>The primitives, unfolded\<close>

lemma smu_write_eq:
  "smu_write self cmd h =
     ((case smu self h (Write cmd) of Inl c \<Rightarrow> Inl (VisaIOError c) | Inr r \<Rightarrow> Inr ()),
      h @ [Write cmd])"
  by (simp add: smu_write_def bind_def call_def return_def split: sum.splits)

lemma smu_close_eq:
  "smu_close self h =
     ((case smu self h Close of Inl c \<Rightarrow> Inl (VisaIOError c) | Inr r \<Rightarrow> Inr ()), h @ [Close])"
  by (simp add: smu_close_def bind_def call_def return_def split: sum.splits)

lemma smu_query_eq:
  "smu_query self cmd h =
     ((case smu self h (Query cmd) of Inl c \<Rightarrow> Inl (VisaIOError c) | Inr r \<Rightarrow> Inr r),
      h @ [Query cmd])"
  by (simp add: smu_query_def call_def)

lemma smu_write_ok:
  "writes_succeed (smu self) \<Longrightarrow> smu_write self cmd h = (Inr (), h @ [Write cmd])"
proof -
  assume "writes_succeed (smu self)"
  then obtain r where "smu self h (Write cmd) = Inr r"
    unfolding writes_succeed_def by blast
  then show ?thesis by (simp add: smu_write_eq)
qed

lemma setter_eq: "setter self p v = smu_write self (tsp_path p @ '' = '' @ py_format v)"
  by (cases p)
    (simp_all add: source_function_set_def nplc_set_def delay_set_def range_i_set_def
      range_v_set_def autorange_i_set_def autorange_v_set_def level_v_set_def level_i_set_def
      limit_i_set_def limit_v_set_def)

lemma digits_of_small: "n < 10 \<Longrightarrow> digits_of n = [digit_char n]"
  by (simp add: digits_of.simps)

lemma py_str_int_0: "py_str_int 0 = ''0''"
  by (simp add: py_str_int_def digits_of_small digit_char_def)

lemma py_str_int_1: "py_str_int 1 = ''1''"
  by (simp add: py_str_int_def digits_of_small digit_char_def)

lemma output_set_eq:
  "output_set self flag h =
     ((case smu self h (Write (''smua.source.output = '' @ (if flag then ''1'' else ''0''))) of
         Inl c \<Rightarrow> Inl (VisaIOError c) | Inr r \<Rightarrow> Inr ()),
      h @ [Write (''smua.source.output = '' @ (if flag then ''1'' else ''0''))])"
  by (simp add: output_set_def smu_write_eq int_of_bool_def py_str_int_0 py_str_int_1)

section \<open>Decimal digits\<close>

lemma digit_cases:
  "d < 10 \<Longrightarrow>
     d = 0 \<or> d = 1 \<or> d = 2 \<or> d = 3 \<or> d = 4 \<or> d = 5 \<or> d = 6 \<or> d = 7 \<or> d = 8 \<or> d = (9::nat)"
  by arith

lemma digit_val_digit_char: "d < 10 \<Longrightarrow> digit_val (digit_char d) = d"
  using digit_cases [of d] by (auto simp add: digit_val_def digit_char_def)

lemma is_digit_digit_char: "d < 10 \<Longrightarrow> is_digit (digit_char d)"
  using digit_cases [of d] by (auto simp add: is_digit_def digit_char_def)

lemma nat_of_digits_snoc: "nat_of_digits (ds @ [c]) = 10 * nat_of_digits ds + digit_val c"
  by (simp add: nat_of_digits_def)

lemma nat_of_digits_digits_of: "nat_of_digits (digits_of n) = n"
proof (induction n rule: digits_of.induct)
  case (1 n)
  show ?case
  proof (cases "n < 10")
    case True
    then show ?thesis
      by (simp add: digits_of.simps [of n] nat_of_digits_def digit_val_digit_char)
  next
    case False
    then have "nat_of_digits (digits_of (n div 10)) = n div 10"
      using "1.IH" by simp
    with False show ?thesis
      by (simp add: digits_of.simps [of n] nat_of_digits_snoc digit_val_digit_char)
  qed
qed

lemma all_digits_digits_of: "list_all is_digit (digits_of n)"
proof (induction n rule: digits_of.induct)
  case (1 n)
  show ?case
  proof (cases "n < 10")
    case True
    then show ?thesis
      by (simp add: digits_of.simps [of n] is_digit_digit_char)
  next
    case False
    then have "list_all is_digit (digits_of (n div 10))"
      using "1.IH" by simp
    with False show ?thesis
      by (simp add: digits_of.simps [of n] is_digit_digit_char)
  qed
qed

section \<open>Accessors, unfolded\<close>

lemma float_getter_eq:
  "bind (bind (smu_query self cmd) (\<lambda>response. pure (py_float (py_strip response))))
        (\<lambda>f. return (VFloat f)) h =
     ((case smu self h (Query cmd) of
         Inl c \<Rightarrow> Inl (VisaIOError c) | Inr r \<Rightarrow> parse_float_token r),
      h @ [Query cmd])"
  by (simp add: bind_def pure_def return_def smu_query_eq parse_float_token_def
      split: sum.splits)

lemma flag_getter_eq:
  "bind (bind (smu_query self cmd) (\<lambda>response.
          bind (pure (py_float (py_strip response))) (\<lambda>f.
          bind (pure (py_int f)) (\<lambda>n. return (py_bool n)))))
        (\<lambda>b. return (VBool b)) h =
     ((case smu self h (Query cmd) of
         Inl c \<Rightarrow> Inl (VisaIOError c) | Inr r \<Rightarrow> parse_flag_token r),
      h @ [Query cmd])"
  by (simp add: bind_def pure_def return_def smu_query_eq parse_flag_token_def py_bool_def
      split: sum.splits)

lemma raw_getter_eq:
  "bind (bind (smu_query self cmd) (\<lambda>response. return response)) (\<lambda>r. return (VStr r)) h =
     ((case smu self h (Query cmd) of Inl c \<Rightarrow> Inl (VisaIOError c) | Inr r \<Rightarrow> Inr (VStr r)),
      h @ [Query cmd])"
  by (simp add: bind_def return_def smu_query_eq split: sum.splits)

lemma getter_eq:
  "getter self p h =
     ((case smu self h (Query (''print('' @ tsp_path p @ '')'')) of
         Inl c \<Rightarrow> Inl (VisaIOError c) | Inr r \<Rightarrow> parse_as (kind_of p) r),
      h @ [Query (''print('' @ tsp_path p @ '')'')])"
  by (cases p)
    (simp_all add: source_function_get_def nplc_get_def delay_get_def range_i_get_def
      range_v_get_def autorange_i_get_def autorange_v_get_def level_v_get_def level_i_get_def
      limit_i_get_def limit_v_get_def float_getter_eq flag_getter_eq raw_getter_eq
      split: sum.splits)

lemma get_output_eq:
  "access self Get_output h =
     ((case smu self h (Query ''print(smua.source.output)'') of
         Inl c \<Rightarrow> Inl (VisaIOError c) | Inr r \<Rightarrow> parse_flag_token r),
      h @ [Query ''print(smua.source.output)''])"
  by (simp add: output_get_def flag_getter_eq)

lemma set_eq:
  "access self (Set p v) h =
     ((case smu self h (Write (tsp_path p @ '' = '' @ py_format v)) of
         Inl c \<Rightarrow> Inl (VisaIOError c) | Inr r \<Rightarrow> Inr VNone),
      h @ [Write (tsp_path p @ '' = '' @ py_format v)])"
  by (simp add: setter_eq smu_write_eq bind_def return_def split: sum.splits)

lemma set_output_eq:
  "access self (Set_output flag) h =
     ((case smu self h (Write (''smua.source.output = '' @ (if flag then ''1'' else ''0''))) of
         Inl c \<Rightarrow> Inl (VisaIOError c) | Inr r \<Rightarrow> Inr VNone),
      h @ [Write (''smua.source.output = '' @ (if flag then ''1'' else ''0''))])"
  by (simp add: output_set_eq bind_def return_def split: sum.splits)

lemma access_eq: "access self a h = (decode a (smu self h (request a)), h @ [request a])"
proof (cases a)
  case Get_output
  then show ?thesis
    by (simp only: get_output_eq) (simp add: output_path_def split: sum.splits)
next
  case (Set_output flag)
  then show ?thesis
    by (simp only: set_output_eq) (simp add: output_path_def split: sum.splits)
next
  case (Get p)
  then show ?thesis
    by (simp add: getter_eq split: sum.splits)
next
  case (Set p v)
  then show ?thesis
    by (simp only: set_eq) (simp split: sum.splits)
qed

lemma run_all_ok:
  "writes_succeed (smu self) \<Longrightarrow>
     run_all self xs h = (Inr (), h @ map (\<lambda>x. Write (primitive_command x)) xs)"
proof (induction xs arbitrary: h)
  case Nil
  then show ?case by (simp add: return_def)
next
  case (Cons x xs)
  have "run_primitive self x h = (Inr (), h @ [Write (primitive_command x)])"
    using Cons.prems by (cases x) (simp_all add: reset_device_def setter_eq smu_write_ok)
  then show ?case
    using Cons by (simp add: bind_def)
qed

section \<open>The paired measurement and evaluation of the builtins\<close>

lemma py_split_nonempty: "py_split sep s \<noteq> []"
  by (induction s) (auto split: list.splits)

lemma py_split_no_sep: "sep \<notin> set s \<Longrightarrow> py_split sep s = [s]"
  by (induction s) auto

lemma py_index_0: "xs \<noteq> [] \<Longrightarrow> py_index xs 0 = Inr (hd xs)"
  by (cases xs) (simp_all add: py_index_def)

lemma py_index_1:
  "xs \<noteq> [] \<Longrightarrow> py_index xs (Suc 0) = (case tl xs of [] \<Rightarrow> Inl IndexError | x # rest \<Rightarrow> Inr x)"
  by (cases xs) (auto simp add: py_index_def split: list.splits)

lemma delay_get_eq:
  "delay_get self h =
     ((case smu self h (Query ''print(smua.measure.delay)'') of
         Inl c \<Rightarrow> Inl (VisaIOError c) | Inr r \<Rightarrow> py_float (py_strip r)),
      h @ [Query ''print(smua.measure.delay)''])"
  by (simp add: delay_get_def bind_def pure_def smu_query_eq split: sum.splits)

lemma measure_iv_eq:
  assumes "smu self h (Write iv_trigger) = Inr r0"
    and "smu self (h @ [Write iv_trigger]) (Query ''print(smua.measure.delay)'') = Inr dresp"
    and "py_float (py_strip dresp) = Inr d"
    and "py_sleep d = Inr ()"
  shows "measure_iv self h =
     ((case smu self (h @ [Write iv_trigger, Query ''print(smua.measure.delay)'', Sleep d])
              (Query iv_readout) of
         Inl c \<Rightarrow> Inl (VisaIOError c)
       | Inr r \<Rightarrow>
           (case py_float (hd (py_split (CHR '','') r)) of
              Inl e \<Rightarrow> Inl e
            | Inr i \<Rightarrow>
                (case tl (py_split (CHR '','') r) of
                   [] \<Rightarrow> Inl IndexError
                 | r1 # rest \<Rightarrow>
                     (case py_float r1 of Inl e \<Rightarrow> Inl e | Inr v \<Rightarrow> Inr (i, v))))),
      h @ [Write iv_trigger, Query ''print(smua.measure.delay)'', Sleep d, Query iv_readout])"
proof -
  have w: "smu_write self ''ireading, vreading = smua.measure.iv()'' h = (Inr (), h @ [Write iv_trigger])"
    using assms(1) by (simp add: smu_write_eq iv_trigger_def)
  have g: "delay_get self (h @ [Write iv_trigger]) =
      (Inr d, h @ [Write iv_trigger, Query ''print(smua.measure.delay)''])"
    using assms(2,3) by (simp add: delay_get_eq)
  have s: "time_sleep d (h @ [Write iv_trigger, Query ''print(smua.measure.delay)'']) =
      (Inr (), h @ [Write iv_trigger, Query ''print(smua.measure.delay)'', Sleep d])"
    using assms(4) by (simp add: time_sleep_def)
  show ?thesis
    unfolding measure_iv_def
    by (simp add: bind_def w g s smu_query_eq pure_def return_def iv_readout_def
        py_index_0 py_index_1 py_split_nonempty split: sum.splits list.splits)
qed

lemmas num_eval = nearest_double_def binary64_def floor_log_def ilog.simps scaled_round_def
  round_ratio_def floor_scaled_def canonical.simps Let_def

lemmas float_eval = py_float_def strip_with_def c_isspace_def parse_sign_def ascii_lower_def
  parse_decimal_def parse_exponent_def is_digit_def nat_of_digits_def digit_val_def py_strip_def
  str_isspace_def

lemmas layout_eval = repr_decimal_def repr_layout_def strip_trailing_zeros_def digits_of.simps
  digit_char_def exponent_digits_def

lemma replicate_num: "replicate (numeral k) x = x # replicate (pred_numeral k) x"
  by (simp add: numeral_eq_Suc)

lemma lit_0_1_eq: "lit_0_1 = Fin 3602879701896397 (- 55)"
  by (simp add: lit_0_1_def num_eval)

lemma lit_1e_3_eq: "lit_1e_3 = Fin 1152921504606847 (- 60)"
  by (simp add: lit_1e_3_def num_eval)

lemma floor_log_0_1: "floor_log 10 3602879701896397 36028797018963968 = - 1"
  by (simp add: floor_log_def ilog.simps Let_def)

lemma shortest_0_1:
  "shortest_decimal (Suc 0) 3602879701896397 36028797018963968 (- 1)
     (Fin 3602879701896397 (- 55)) = (1, - 1)"
  by (simp add: num_eval shortest_decimal.simps)

lemma repr_0_1: "float_repr lit_0_1 = ''0.1''"
  by (simp add: lit_0_1_eq repr_finite_def floor_log_0_1 shortest_0_1 layout_eval replicate_num)

lemma floor_log_1e_3: "floor_log 10 1152921504606847 1152921504606846976 = - 3"
  by (simp add: floor_log_def ilog.simps Let_def)

lemma shortest_1e_3:
  "shortest_decimal (Suc 0) 1152921504606847 1152921504606846976 (- 3)
     (Fin 1152921504606847 (- 60)) = (1, - 3)"
  by (simp add: num_eval shortest_decimal.simps)

lemma repr_1e_3: "float_repr lit_1e_3 = ''0.001''"
  by (simp add: lit_1e_3_eq repr_finite_def floor_log_1e_3 shortest_1e_3 layout_eval
      replicate_num)

lemma py_float_five: "py_float (py_strip (''5.000000E+00'' @ [CHR 0x0A])) = Inr (Fin 5 0)"
  by (simp add: float_eval num_eval)

lemma py_float_1e_3: "py_float ''1.0e-3'' = Inr (Fin 1152921504606847 (- 60))"
  by (simp add: float_eval num_eval)

lemma py_float_2_5: "py_float ''2.5'' = Inr (Fin 5 (- 1))"
  by (simp add: float_eval num_eval)

lemma py_float_0_1: "py_float (py_strip ''0.1'') = Inr (Fin 3602879701896397 (- 55))"
  by (simp add: float_eval num_eval)

lemma py_float_empty: "py_float (py_strip []) = Inl ValueError"
  by (simp add: float_eval)

lemma py_float_1_0: "py_float ''1.0'' = Inr (Fin 1 0)"
  by (simp add: float_eval num_eval)

lemma py_sleep_0_1: "py_sleep (Fin 3602879701896397 (- 55)) = Inr ()"
  by (simp add: py_sleep.simps nanoseconds_def num_eval)

lemma py_float_raises_ValueError: "py_float s = Inl e \<Longrightarrow> e = ValueError"
  by (auto simp add: py_float_def Let_def split: if_splits prod.splits option.splits)

lemma floor_log_2_5: "floor_log 10 5 2 = 0"
  by (simp add: floor_log_def ilog.simps Let_def)

lemma shortest_2_5: "shortest_decimal (Suc 0) 5 2 0 (Fin 5 (- 1)) = (25, - 1)"
  by (simp add: num_eval shortest_decimal.simps)

lemma repr_2_5: "repr_finite 5 (- 1) = ''2.5''"
  by (simp add: repr_finite_def floor_log_2_5 shortest_2_5 layout_eval replicate_num)

lemma py_str_int_20: "py_str_int 20 = ''20''"
  by (simp add: py_str_int_def digits_of.simps digit_char_def)

lemma py_str_int_5: "py_str_int 5 = ''5''"
  by (simp add: py_str_int_def digits_of.simps digit_char_def)

lemma measure_iv_on_iv_mock:
  "measure_iv \<lparr>smu = iv_mock r\<rparr> [] =
     ((case py_float (hd (py_split (CHR '','') r)) of
         Inl e \<Rightarrow> Inl e
       | Inr i \<Rightarrow>
           (case tl (py_split (CHR '','') r) of
              [] \<Rightarrow> Inl IndexError
            | r1 # rest \<Rightarrow> (case py_float r1 of Inl e \<Rightarrow> Inl e | Inr v \<Rightarrow> Inr (i, v)))),
      [Write iv_trigger, Query ''print(smua.measure.delay)'', Sleep (Fin 3602879701896397 (- 55)),
       Query iv_readout])"
proof -
  have "measure_iv \<lparr>smu = iv_mock r\<rparr> [] =
     ((case smu \<lparr>smu = iv_mock r\<rparr>
              ([] @ [Write iv_trigger, Query ''print(smua.measure.delay)'',
                     Sleep (Fin 3602879701896397 (- 55))])
              (Query iv_readout) of
         Inl c \<Rightarrow> Inl (VisaIOError c)
       | Inr r \<Rightarrow>
           (case py_float (hd (py_split (CHR '','') r)) of
              Inl e \<Rightarrow> Inl e
            | Inr i \<Rightarrow>
                (case tl (py_split (CHR '','') r) of
                   [] \<Rightarrow> Inl IndexError
                 | r1 # rest \<Rightarrow>
                     (case py_float r1 of Inl e \<Rightarrow> Inl e | Inr v \<Rightarrow> Inr (i, v))))),
      [] @ [Write iv_trigger, Query ''print(smua.measure.delay)'',
            Sleep (Fin 3602879701896397 (- 55)), Query iv_readout])"
    by (rule measure_iv_eq [where ?r0.0 = "[]" and dresp = "''0.1''"])
      (simp_all add: iv_mock_def mock_def py_float_0_1 py_sleep_0_1)
  then show ?thesis
    by (simp add: iv_mock_def mock_def iv_readout_def)
qed

section \<open>Truncation and magnitude\<close>

lemma py_int_nonzero_iff:
  assumes "py_int (Fin m e) = Inr n"
  shows "(n \<noteq> 0) = (1 \<le> \<bar>(of_int m :: real) * 2 powi e\<bar>)"
proof (cases "0 \<le> e")
  case True
  then have n: "n = m * 2 ^ nat e"
    using assms by simp
  have "\<bar>(of_int m :: real) * 2 powi e\<bar> = of_int (\<bar>m\<bar> * 2 ^ nat e)"
    using True by (simp add: power_int_def abs_mult)
  moreover have "(1 \<le> (of_int (\<bar>m\<bar> * 2 ^ nat e) :: real)) = (1 \<le> \<bar>m\<bar> * 2 ^ nat e)"
    by (metis of_int_1 of_int_le_iff)
  moreover have "(1 \<le> \<bar>m\<bar> * 2 ^ nat e) = (m \<noteq> 0)"
  proof
    assume "1 \<le> \<bar>m\<bar> * 2 ^ nat e"
    then show "m \<noteq> 0" by auto
  next
    assume "m \<noteq> 0"
    then have "1 \<le> \<bar>m\<bar>" by simp
    moreover have "(1::int) \<le> 2 ^ nat e" by simp
    ultimately show "1 \<le> \<bar>m\<bar> * 2 ^ nat e"
      by (metis mult_mono' mult_1 zero_le_one)
  qed
  ultimately show ?thesis
    using n by simp
next
  case False
  define k where "k = nat (- e)"
  have pos: "(0::int) < 2 ^ k" by simp
  have v: "\<bar>(of_int m :: real) * 2 powi e\<bar> = of_int \<bar>m\<bar> / of_int (2 ^ k)"
    using False by (simp add: power_int_def k_def abs_mult field_simps power_inverse)
  have "(1 \<le> (of_int \<bar>m\<bar> :: real) / of_int (2 ^ k)) = ((of_int (2 ^ k) :: real) \<le> of_int \<bar>m\<bar>)"
    using pos by (simp add: le_divide_eq)
  also have "\<dots> = (2 ^ k \<le> \<bar>m\<bar>)"
    by (simp only: of_int_le_iff)
  finally have mag: "(1 \<le> \<bar>(of_int m :: real) * 2 powi e\<bar>) = (2 ^ k \<le> \<bar>m\<bar>)"
    using v by simp
  show ?thesis
  proof (cases "0 \<le> m")
    case True
    then have "n = m div 2 ^ k"
      using assms False by (simp add: k_def)
    moreover have "(m div 2 ^ k \<noteq> 0) = (2 ^ k \<le> m)"
      using True pos by (metis div_pos_pos_trivial not_le pos_imp_zdiv_pos_iff less_irrefl)
    ultimately show ?thesis
      using mag True by simp
  next
    case neg: False
    then have "n = - ((- m) div 2 ^ k)"
      using assms False by (simp add: k_def)
    moreover have "((- m) div 2 ^ k \<noteq> 0) = (2 ^ k \<le> - m)"
      using neg pos by (metis div_pos_pos_trivial not_le pos_imp_zdiv_pos_iff less_irrefl neg_0_le_iff_le linear)
    ultimately show ?thesis
      using mag neg by simp
  qed
qed

section \<open>Further evaluations and unfoldings\<close>

lemma parse_float_five: "parse_float_token (''5.000000E+00'' @ [CHR 0x0A]) = Inr (VFloat (Fin 5 0))"
  by (simp only: parse_float_token_def py_float_five) simp

lemma parse_flag_five: "parse_flag_token (''5.000000E+00'' @ [CHR 0x0A]) = Inr (VBool True)"
  by (simp only: parse_flag_token_def py_float_five) simp

lemma bind_return: "bind f return = f"
  by (rule ext) (simp add: bind_def return_def split: prod.splits sum.splits)

lemma init_ok:
  assumes "writes_succeed device"
  shows "init device delay h =
     (Inr \<lparr>smu = device\<rparr>,
      h @ [Write ''smua.reset()'', Write ''smua.source.func = 1'',
           Write ''smua.source.levelv = 0'', Write ''smua.measure.autorangei = 1'',
           Write ''smua.measure.autorangev = 1'', Write ''smua.source.output = 0'',
           Write (''smua.measure.delay = '' @ py_format delay)])"
proof -
  have ok: "smu_write \<lparr>smu = device\<rparr> cmd g = (Inr (), g @ [Write cmd])" for cmd g
    using assms smu_write_ok [of "\<lparr>smu = device\<rparr>"] by simp
  show ?thesis
    by (simp add: init_def default_setup_def reset_device_def source_function_set_def
        level_v_set_def autorange_i_set_def autorange_v_set_def output_set_def delay_set_def
        bind_def return_def ok int_of_bool_def py_str_int_0 py_str_int_1)
qed

lemma single_token_eq:
  "bind (smu_query self cmd) (\<lambda>response. pure (py_float (py_strip response))) h =
     ((case smu self h (Query cmd) of
         Inl c \<Rightarrow> Inl (VisaIOError c) | Inr r \<Rightarrow> py_float (py_strip r)),
      h @ [Query cmd])"
  by (simp add: bind_def pure_def smu_query_eq split: sum.splits)

lemma parse_float_token_malformed:
  "py_float (py_strip r) = Inl e \<Longrightarrow> parse_float_token r = Inl ValueError"
  using py_float_raises_ValueError [of "py_strip r" e] by (simp add: parse_float_token_def)

lemma parse_flag_token_malformed:
  "py_float (py_strip r) = Inl e \<Longrightarrow> parse_flag_token r = Inl ValueError"
  using py_float_raises_ValueError [of "py_strip r" e] by (simp add: parse_flag_token_def)

lemma py_float_abc: "py_float ''abc'' = Inl ValueError"
  by (simp add: float_eval)

lemma py_strip_empty: "py_strip [] = []"
  by (simp add: py_strip_def strip_with_def)

lemma py_float_0_5: "py_float (py_strip ''0.5'') = Inr (Fin 1 (- 1))"
  by (simp add: float_eval num_eval)

lemma py_float_zero_exp: "py_float (py_strip ''0.000000E+00'') = Inr (Fin 0 0)"
  by (simp add: float_eval num_eval)

lemma py_float_2: "py_float (py_strip ''2'') = Inr (Fin 1 1)"
  by (simp add: float_eval num_eval)

lemma no_primitive_writes_buffer_read:
  "primitive_command x \<noteq> ''smua.measure.r(smua.nvbuffer1)''"
proof (cases x)
  case Reset_device
  then show ?thesis by simp
next
  case (Assign p v)
  then show ?thesis by (cases p) simp_all
qed

section \<open>Floats rendered\<close>

text \<open>
  For each float: the power of ten below it, the shortest decimal, its layout.
\<close>

lemma floor_log_5: "floor_log 10 5 (Suc 0) = 0"
  by (simp add: floor_log_def ilog.simps Let_def)

lemma shortest_5:
  "shortest_decimal (Suc 0) 5 (Suc 0) 0 (Fin 5 0) = (5, 0)"
  by (simp add: num_eval shortest_decimal.simps)

lemma decimal_5: "repr_decimal 5 0 = ''5.0''"
  by (simp add: layout_eval replicate_num)

lemma repr_5: "repr_finite 5 0 = ''5.0''"
  by (simp add: repr_finite_def floor_log_5 shortest_5 decimal_5)

lemma floor_log_100: "floor_log 10 100 (Suc 0) = 2"
  by (simp add: floor_log_def ilog.simps Let_def)

lemma shortest_100:
  "shortest_decimal (Suc 0) 100 (Suc 0) 2 (Fin 25 2) = (1, 2)"
  by (simp add: num_eval shortest_decimal.simps)

lemma decimal_100: "repr_decimal (Suc 0) 2 = ''100.0''"
  by (simp add: layout_eval replicate_num)

lemma repr_100: "repr_finite 25 2 = ''100.0''"
  by (simp add: repr_finite_def floor_log_100 shortest_100 decimal_100)

lemma floor_log_1e16: "floor_log 10 10000000000000000 (Suc 0) = 16"
  by (simp add: floor_log_def ilog.simps Let_def)

lemma shortest_1e16:
  "shortest_decimal (Suc 0) 10000000000000000 (Suc 0) 16 (Fin 152587890625 16) = (1, 16)"
  by (simp add: num_eval shortest_decimal.simps)

lemma decimal_1e16: "repr_decimal (Suc 0) 16 = ''1e+16''"
  by (simp add: layout_eval replicate_num)

lemma repr_1e16: "repr_finite 152587890625 16 = ''1e+16''"
  by (simp add: repr_finite_def floor_log_1e16 shortest_1e16 decimal_1e16)

lemma floor_log_1e15: "floor_log 10 1000000000000000 (Suc 0) = 15"
  by (simp add: floor_log_def ilog.simps Let_def)

lemma shortest_1e15:
  "shortest_decimal (Suc 0) 1000000000000000 (Suc 0) 15 (Fin 30517578125 15) = (1, 15)"
  by (simp add: num_eval shortest_decimal.simps)

lemma decimal_1e15: "repr_decimal (Suc 0) 15 = ''1000000000000000.0''"
  by (simp add: layout_eval replicate_num)

lemma repr_1e15: "repr_finite 30517578125 15 = ''1000000000000000.0''"
  by (simp add: repr_finite_def floor_log_1e15 shortest_1e15 decimal_1e15)

lemma floor_log_1e_5: "floor_log 10 5902958103587057 590295810358705651712 = (- 5)"
  by (simp add: floor_log_def ilog.simps Let_def)

lemma shortest_1e_5:
  "shortest_decimal (Suc 0) 5902958103587057 590295810358705651712 (- 5) (Fin 5902958103587057 (- 69)) = (1, (- 5))"
  by (simp add: num_eval shortest_decimal.simps)

lemma decimal_1e_5: "repr_decimal (Suc 0) (- 5) = ''1e-05''"
  by (simp add: layout_eval replicate_num)

lemma repr_1e_5: "repr_finite 5902958103587057 (- 69) = ''1e-05''"
  by (simp add: repr_finite_def floor_log_1e_5 shortest_1e_5 decimal_1e_5)

lemma floor_log_1e_4: "floor_log 10 7378697629483821 73786976294838206464 = (- 4)"
  by (simp add: floor_log_def ilog.simps Let_def)

lemma shortest_1e_4:
  "shortest_decimal (Suc 0) 7378697629483821 73786976294838206464 (- 4) (Fin 7378697629483821 (- 66)) = (1, (- 4))"
  by (simp add: num_eval shortest_decimal.simps)

lemma decimal_1e_4: "repr_decimal (Suc 0) (- 4) = ''0.0001''"
  by (simp add: layout_eval replicate_num)

lemma repr_1e_4: "repr_finite 7378697629483821 (- 66) = ''0.0001''"
  by (simp add: repr_finite_def floor_log_1e_4 shortest_1e_4 decimal_1e_4)

lemma floor_log_2_pow_24: "floor_log 10 (Suc 0) 16777216 = (- 8)"
  by (simp add: floor_log_def ilog.simps Let_def)

lemma shortest_2_pow_24:
  "shortest_decimal (Suc 0) (Suc 0) 16777216 (- 8) (Fin 1 (- 24)) = (5960464477539063, (- 23))"
  by (simp add: num_eval shortest_decimal.simps)

lemma decimal_2_pow_24: "repr_decimal 5960464477539063 (- 23) = ''5.960464477539063e-08''"
  by (simp add: layout_eval replicate_num)

lemma repr_2_pow_24: "repr_finite 1 (- 24) = ''5.960464477539063e-08''"
  by (simp add: repr_finite_def floor_log_2_pow_24 shortest_2_pow_24 decimal_2_pow_24)

lemma floor_log_1_5: "floor_log 10 3 2 = 0"
  by (simp add: floor_log_def ilog.simps Let_def)

lemma shortest_1_5:
  "shortest_decimal (Suc 0) 3 2 0 (Fin 3 (- 1)) = (15, (- 1))"
  by (simp add: num_eval shortest_decimal.simps)

lemma decimal_1_5: "repr_decimal 15 (- 1) = ''1.5''"
  by (simp add: layout_eval replicate_num)

lemma repr_1_5: "repr_finite 3 (- 1) = ''1.5''"
  by (simp add: repr_finite_def floor_log_1_5 shortest_1_5 decimal_1_5)

lemma floor_log_frac: "floor_log 10 987654313 8 = 8"
  by (simp add: floor_log_def ilog.simps Let_def)

lemma shortest_frac:
  "shortest_decimal (Suc 0) 987654313 8 8 (Fin 987654313 (- 3)) = (123456789125, (- 3))"
  by (simp add: num_eval shortest_decimal.simps)

lemma decimal_frac: "repr_decimal 123456789125 (- 3) = ''123456789.125''"
  by (simp add: layout_eval replicate_num)

lemma repr_frac: "repr_finite 987654313 (- 3) = ''123456789.125''"
  by (simp add: repr_finite_def floor_log_frac shortest_frac decimal_frac)

lemma nearest_1e_3: "nearest_double 1 (- 3) = Fin 1152921504606847 (- 60)"
  by (simp add: num_eval)

lemma nearest_0_1: "nearest_double 1 (- 1) = Fin 3602879701896397 (- 55)"
  by (simp add: num_eval)

lemma nearest_2_5: "nearest_double 25 (- 1) = Fin 5 (- 1)"
  by (simp add: num_eval)

lemma nearest_5: "nearest_double 5 0 = Fin 5 0"
  by (simp add: num_eval)

lemma nearest_100: "nearest_double 1 2 = Fin 25 2"
  by (simp add: num_eval)

lemma nearest_1e16: "nearest_double 1 16 = Fin 152587890625 16"
  by (simp add: num_eval)

lemma nearest_1e15: "nearest_double 1 15 = Fin 30517578125 15"
  by (simp add: num_eval)

lemma nearest_1e_5: "nearest_double 1 (- 5) = Fin 5902958103587057 (- 69)"
  by (simp add: num_eval)

lemma nearest_1e_4: "nearest_double 1 (- 4) = Fin 7378697629483821 (- 66)"
  by (simp add: num_eval)

lemma nearest_1_5: "nearest_double 15 (- 1) = Fin 3 (- 1)"
  by (simp add: num_eval)

lemma nearest_frac: "nearest_double 123456789125 (- 3) = Fin 987654313 (- 3)"
  by (simp add: num_eval)

lemma format_1e_3: "py_format (PFloat (Fin 1152921504606847 (- 60))) = ''0.001''"
  using repr_1e_3 by (simp add: lit_1e_3_eq)

lemma format_0_1: "py_format (PFloat (Fin 3602879701896397 (- 55))) = ''0.1''"
  using repr_0_1 by (simp add: lit_0_1_eq)

lemma format_2_5: "py_format (PFloat (Fin 5 (- 1))) = ''2.5''"
  by (simp add: repr_2_5)

lemma format_5: "py_format (PFloat (Fin 5 0)) = ''5.0''"
  by (simp add: repr_5)

lemma format_100: "py_format (PFloat (Fin 25 2)) = ''100.0''"
  by (simp add: repr_100)

lemma format_1e16: "py_format (PFloat (Fin 152587890625 16)) = ''1e+16''"
  by (simp add: repr_1e16)

lemma format_1e15: "py_format (PFloat (Fin 30517578125 15)) = ''1000000000000000.0''"
  by (simp add: repr_1e15)

lemma format_1e_5: "py_format (PFloat (Fin 5902958103587057 (- 69))) = ''1e-05''"
  by (simp add: repr_1e_5)

lemma format_1e_4: "py_format (PFloat (Fin 7378697629483821 (- 66))) = ''0.0001''"
  by (simp add: repr_1e_4)

lemma format_2_pow_24: "py_format (PFloat (Fin 1 (- 24))) = ''5.960464477539063e-08''"
  using repr_2_pow_24 by simp

lemma format_minus_1_5: "py_format (PFloat (negate (Fin 3 (- 1)))) = ''-1.5''"
  by (simp add: repr_1_5)

lemma format_frac: "py_format (PFloat (Fin 987654313 (- 3))) = ''123456789.125''"
  by (simp add: repr_frac)

lemma measure_iv_delay_rejected:
  assumes "smu self h (Write iv_trigger) = Inr r0"
    and "smu self (h @ [Write iv_trigger]) (Query ''print(smua.measure.delay)'') = Inr t"
    and "py_float (py_strip t) = Inl e"
  shows "measure_iv self h =
     (Inl ValueError, h @ [Write iv_trigger, Query ''print(smua.measure.delay)''])"
proof -
  have w: "smu_write self ''ireading, vreading = smua.measure.iv()'' h = (Inr (), h @ [Write iv_trigger])"
    using assms(1) by (simp add: smu_write_eq iv_trigger_def)
  have "e = ValueError"
    using assms(3) by (rule py_float_raises_ValueError)
  then have g: "delay_get self (h @ [Write iv_trigger]) =
      (Inl ValueError, h @ [Write iv_trigger, Query ''print(smua.measure.delay)''])"
    using assms(2,3) by (simp add: delay_get_eq)
  show ?thesis
    unfolding measure_iv_def by (simp add: bind_def w g)
qed

lemma py_float_two: "py_float ''2'' = Inr (Fin 1 1)"
  by (simp add: float_eval num_eval)

lemma py_float_half: "py_float ''0.5'' = Inr (Fin 1 (- 1))"
  by (simp add: float_eval num_eval)

section \<open>Remarks on the builtins\<close>

text \<open>The pair of \<^verbatim>\<open>measure_iv\<close> is no float.\<close>

lemma py_float_pair_rejected: "py_float (py_strip ''1.0e-3,2.5'') = Inl ValueError"
  by (simp add: float_eval)

text \<open>
  \<^verbatim>\<open>float\<close> rounds to the nearest double before \<^verbatim>\<open>int\<close> truncates: a decimal
  below one that is nearer to \<^verbatim>\<open>1.0\<close> than to the double below it reads as \<^verbatim>\<open>1.0\<close>.
\<close>

lemma py_float_rounds_up: "py_float (py_strip ''0.99999999999999999999'') = Inr (Fin 1 0)"
  by (simp add: float_eval num_eval)

lemma parse_flag_token_rounds_up: "parse_flag_token ''0.99999999999999999999'' = Inr (VBool True)"
  by (simp only: parse_flag_token_def py_float_rounds_up) simp

section \<open>Teardown\<close>

text \<open>
  Claim C1, as amended. \<^verbatim>\<open>__del__\<close> first writes the output-off command. It writes
  the reset command only when that write did not raise, and closes the transport
  only when neither write raised; the three calls then occur in this order. An
  exception of a write ends the teardown: the remaining steps are skipped.
\<close>

theorem del_sequence:
  "del self h =
     (case smu self h (Write ''smua.source.output = 0'') of
        Inl c \<Rightarrow> (Inl (VisaIOError c), h @ [Write ''smua.source.output = 0''])
      | Inr r \<Rightarrow>
          (case smu self (h @ [Write ''smua.source.output = 0'']) (Write ''smua.reset()'') of
             Inl c \<Rightarrow>
               (Inl (VisaIOError c), h @ [Write ''smua.source.output = 0'', Write ''smua.reset()''])
           | Inr r' \<Rightarrow>
               ((case smu self (h @ [Write ''smua.source.output = 0'', Write ''smua.reset()'']) Close of
                   Inl c \<Rightarrow> Inl (VisaIOError c) | Inr r'' \<Rightarrow> Inr ()),
                h @ [Write ''smua.source.output = 0'', Write ''smua.reset()'', Close])))"
  by (simp add: del_def bind_def output_set_eq reset_device_def smu_write_eq smu_close_eq
      split: sum.splits)

text \<open>On a transport that accepts every call, the teardown runs to the end.\<close>

theorem del_sequence_witness:
  "del \<lparr>smu = mock []\<rparr> [] =
     (Inr (), [Write ''smua.source.output = 0'', Write ''smua.reset()'', Close])"
  using del_sequence [of "\<lparr>smu = mock []\<rparr>" "[]"]
  by (simp add: mock_def)

text \<open>
  Claim C1 as stated fails: when the write of the output-off command raises,
  \<^verbatim>\<open>__del__\<close> ends with that exception; no reset is written and the transport is
  not closed.
\<close>

theorem del_aborts_counterexample:
  "del \<lparr>smu = refusing ''smua.source.output = 0''\<rparr> [] =
     (Inl (VisaIOError (- 1073807339)), [Write ''smua.source.output = 0''])"
  by (simp add: del_def bind_def output_set_eq reset_device_def smu_write_eq smu_close_eq
      refusing_def)

section \<open>Construction\<close>

text \<open>
  Claim C2. On a transport whose writes do not raise, constructing a session
  succeeds and issues, in this order, the device reset and then the default
  configuration: source function 1 (voltage), level 0 V, current autorange on,
  voltage autorange on, output off. (The assignment of \<^verbatim>\<open>delay\<close> that ends
  \<^verbatim>\<open>__init__\<close> follows as a seventh write.)
\<close>

theorem init_sequence:
  assumes "writes_succeed device"
  shows "init device delay h =
     (Inr \<lparr>smu = device\<rparr>,
      h @ [Write ''smua.reset()'', Write ''smua.source.func = 1'',
           Write ''smua.source.levelv = 0'', Write ''smua.measure.autorangei = 1'',
           Write ''smua.measure.autorangev = 1'', Write ''smua.source.output = 0'',
           Write (''smua.measure.delay = '' @ py_format delay)])"
  using assms by (rule init_ok)

text \<open>The default \<^verbatim>\<open>delay=0.1\<close> on a transport that accepts every call.\<close>

theorem init_sequence_witness:
  "init (mock []) (PFloat lit_0_1) [] =
     (Inr \<lparr>smu = mock []\<rparr>,
      [Write ''smua.reset()'', Write ''smua.source.func = 1'',
       Write ''smua.source.levelv = 0'', Write ''smua.measure.autorangei = 1'',
       Write ''smua.measure.autorangev = 1'', Write ''smua.source.output = 0'',
       Write ''smua.measure.delay = 0.1''])"
  using init_sequence [of "mock []" "PFloat lit_0_1" "[]"]
  by (simp add: writes_succeed_def mock_def repr_0_1)

section \<open>Setters\<close>

text \<open>
  Claim C6, as amended. Every setter writes one command: the path of its property,
  \<^verbatim>\<open> = \<close>, and the argument as Python's \<^verbatim>\<open>str\<close> renders it. An int is rendered as
  its decimal numeral (a minus sign when negative, then digits that read back as
  its magnitude), a float as its \<^verbatim>\<open>repr\<close> (positional or exponent notation, as in
  the examples), a bool as \<^verbatim>\<open>True\<close> or \<^verbatim>\<open>False\<close>. Only the setter of \<^verbatim>\<open>output\<close>
  converts its flag with \<^verbatim>\<open>int\<close>: it renders \<^verbatim>\<open>False\<close> as \<^verbatim>\<open>0\<close> and \<^verbatim>\<open>True\<close> as \<^verbatim>\<open>1\<close>.
\<close>

theorem setter_commands:
  "snd (access self (Set p v) h) = h @ [Write (tsp_path p @ '' = '' @ py_format v)]
   \<and> snd (access self (Set_output flag) h) =
       h @ [Write (''smua.source.output = '' @ (if flag then ''1'' else ''0''))]
   \<and> py_format (PBool b) = (if b then ''True'' else ''False'')
   \<and> py_format (PInt n) = (if n < 0 then ''-'' else []) @ digits_of (nat \<bar>n\<bar>)
   \<and> list_all is_digit (digits_of k) \<and> nat_of_digits (digits_of k) = k
   \<and> py_format (PFloat (nearest_double 1 (- 3))) = ''0.001''
   \<and> py_format (PFloat (nearest_double 1 (- 1))) = ''0.1''
   \<and> py_format (PFloat (nearest_double 25 (- 1))) = ''2.5''
   \<and> py_format (PFloat (nearest_double 5 0)) = ''5.0''
   \<and> py_format (PFloat (nearest_double 1 2)) = ''100.0''
   \<and> py_format (PFloat (nearest_double 123456789125 (- 3))) = ''123456789.125''
   \<and> py_format (PFloat (negate (nearest_double 15 (- 1)))) = ''-1.5''
   \<and> py_format (PFloat (nearest_double 1 15)) = ''1000000000000000.0''
   \<and> py_format (PFloat (nearest_double 1 16)) = ''1e+16''
   \<and> py_format (PFloat (nearest_double 1 (- 4))) = ''0.0001''
   \<and> py_format (PFloat (nearest_double 1 (- 5))) = ''1e-05''
   \<and> py_format (PFloat (Fin 1 (- 24))) = ''5.960464477539063e-08''
   \<and> py_format (PFloat (Fin 0 0)) = ''0.0'' \<and> py_format (PFloat NegZero) = ''-0.0''
   \<and> py_format (PFloat PInf) = ''inf'' \<and> py_format (PFloat NInf) = ''-inf''
   \<and> py_format (PFloat NaN) = ''nan''"
proof (intro conjI)
  show "snd (access self (Set p v) h) = h @ [Write (tsp_path p @ '' = '' @ py_format v)]"
    by (simp only: set_eq snd_conv)
  show "snd (access self (Set_output flag) h) =
      h @ [Write (''smua.source.output = '' @ (if flag then ''1'' else ''0''))]"
    by (simp only: set_output_eq snd_conv)
  show "py_format (PBool b) = (if b then ''True'' else ''False'')"
    by simp
  show "py_format (PInt n) = (if n < 0 then ''-'' else []) @ digits_of (nat \<bar>n\<bar>)"
    by (simp add: py_str_int_def)
  show "list_all is_digit (digits_of k)"
    by (rule all_digits_digits_of)
  show "nat_of_digits (digits_of k) = k"
    by (rule nat_of_digits_digits_of)
  show "py_format (PFloat (nearest_double 1 (- 3))) = ''0.001''"
    by (simp only: nearest_1e_3 format_1e_3)
  show "py_format (PFloat (nearest_double 1 (- 1))) = ''0.1''"
    by (simp only: nearest_0_1 format_0_1)
  show "py_format (PFloat (nearest_double 25 (- 1))) = ''2.5''"
    by (simp only: nearest_2_5 format_2_5)
  show "py_format (PFloat (nearest_double 5 0)) = ''5.0''"
    by (simp only: nearest_5 format_5)
  show "py_format (PFloat (nearest_double 1 2)) = ''100.0''"
    by (simp only: nearest_100 format_100)
  show "py_format (PFloat (nearest_double 123456789125 (- 3))) = ''123456789.125''"
    by (simp only: nearest_frac format_frac)
  show "py_format (PFloat (negate (nearest_double 15 (- 1)))) = ''-1.5''"
    by (simp only: nearest_1_5 format_minus_1_5)
  show "py_format (PFloat (nearest_double 1 15)) = ''1000000000000000.0''"
    by (simp only: nearest_1e15 format_1e15)
  show "py_format (PFloat (nearest_double 1 16)) = ''1e+16''"
    by (simp only: nearest_1e16 format_1e16)
  show "py_format (PFloat (nearest_double 1 (- 4))) = ''0.0001''"
    by (simp only: nearest_1e_4 format_1e_4)
  show "py_format (PFloat (nearest_double 1 (- 5))) = ''1e-05''"
    by (simp only: nearest_1e_5 format_1e_5)
  show "py_format (PFloat (Fin 1 (- 24))) = ''5.960464477539063e-08''"
    by (rule format_2_pow_24)
  show "py_format (PFloat (Fin 0 0)) = ''0.0''"
    by simp
  show "py_format (PFloat NegZero) = ''-0.0''"
    by simp
  show "py_format (PFloat PInf) = ''inf''"
    by simp
  show "py_format (PFloat NInf) = ''-inf''"
    by simp
  show "py_format (PFloat NaN) = ''nan''"
    by simp
qed

theorem setter_commands_witness:
  "snd (access \<lparr>smu = mock []\<rparr> (Set Level_v (PFloat (Fin 5 (- 1)))) []) =
     [Write ''smua.source.levelv = 2.5'']
   \<and> snd (access \<lparr>smu = mock []\<rparr> (Set Range_v (PInt 20)) []) =
     [Write ''smua.measure.rangev = 20'']
   \<and> snd (access \<lparr>smu = mock []\<rparr> (Set_output False) []) = [Write ''smua.source.output = 0'']
   \<and> snd (access \<lparr>smu = mock []\<rparr> (Set_output True) []) = [Write ''smua.source.output = 1'']"
  using setter_commands [of "\<lparr>smu = mock []\<rparr>" Level_v "PFloat (Fin 5 (- 1))" "[]" False True 0 0]
    setter_commands [of "\<lparr>smu = mock []\<rparr>" Range_v "PInt 20" "[]" True True 0 0]
  by (simp add: repr_2_5 py_str_int_20)

text \<open>
  Claim C6 as stated fails: the setter of \<^verbatim>\<open>autorange_i\<close> renders the bool \<^verbatim>\<open>True\<close>
  as \<^verbatim>\<open>True\<close>, not as \<^verbatim>\<open>1\<close>.
\<close>

theorem autorange_bool_counterexample:
  "snd (access \<lparr>smu = mock []\<rparr> (Set Autorange_i (PBool True)) []) =
     [Write ''smua.measure.autorangei = True'']
   \<and> snd (access \<lparr>smu = mock []\<rparr> (Set Autorange_i (PBool True)) []) \<noteq>
     [Write ''smua.measure.autorangei = 1'']"
  by (simp add: autorange_i_set_def smu_write_eq bind_def return_def mock_def)

section \<open>The paired measurement\<close>

text \<open>
  Claim C3, as amended. When the trigger write succeeds, the query of the measure
  delay (made by the getter of \<^verbatim>\<open>delay\<close>) is answered with a delay that
  \<^verbatim>\<open>time.sleep\<close> accepts, and the read-out query is answered \<open>r\<close>, then
  \<^verbatim>\<open>measure_iv\<close> splits \<open>r\<close> at its commas and returns the first two parts, each
  parsed by \<^verbatim>\<open>float\<close>, current first; for \<^verbatim>\<open>1.0e-3,2.5\<close> that is the pair of the
  floats \<^verbatim>\<open>0.001\<close> and \<^verbatim>\<open>2.5\<close>.
\<close>

theorem measure_iv_pair:
  assumes "smu self h (Write iv_trigger) = Inr r0"
    and "smu self (h @ [Write iv_trigger]) (Query ''print(smua.measure.delay)'') = Inr dresp"
    and "py_float (py_strip dresp) = Inr d"
    and "py_sleep d = Inr ()"
    and "smu self (h @ [Write iv_trigger, Query ''print(smua.measure.delay)'', Sleep d])
           (Query iv_readout) = Inr r"
  shows "(py_split (CHR '','') r = p0 # p1 # rest \<and> py_float p0 = Inr i \<and> py_float p1 = Inr v \<longrightarrow>
            fst (measure_iv self h) = Inr (i, v))
     \<and> (r = ''1.0e-3,2.5'' \<longrightarrow>
            fst (measure_iv self h) = Inr (nearest_double 1 (- 3), nearest_double 25 (- 1)))"
proof (intro conjI impI)
  note iv = measure_iv_eq [OF assms(1-4)]
  show "fst (measure_iv self h) = Inr (i, v)"
    if "py_split (CHR '','') r = p0 # p1 # rest \<and> py_float p0 = Inr i \<and> py_float p1 = Inr v"
    using that assms(5) by (simp add: iv)
  show "fst (measure_iv self h) = Inr (nearest_double 1 (- 3), nearest_double 25 (- 1))"
    if "r = ''1.0e-3,2.5''"
  proof -
    have "fst (measure_iv self h) = Inr (Fin 1152921504606847 (- 60), Fin 5 (- 1))"
      using that assms(5) by (simp add: iv py_float_1e_3 py_float_2_5)
    then show ?thesis
      by (simp only: nearest_1e_3 nearest_2_5)
  qed
qed

theorem measure_iv_pair_witness:
  "fst (measure_iv \<lparr>smu = iv_mock ''1.0e-3,2.5''\<rparr> []) =
     Inr (Fin 1152921504606847 (- 60), Fin 5 (- 1))
   \<and> fst (measure_iv \<lparr>smu = iv_mock ''2,0.5''\<rparr> []) = Inr (Fin 1 1, Fin 1 (- 1))"
proof -
  have a: "fst (measure_iv \<lparr>smu = iv_mock ''1.0e-3,2.5''\<rparr> []) =
      Inr (nearest_double 1 (- 3), nearest_double 25 (- 1))"
    using measure_iv_pair [of "\<lparr>smu = iv_mock ''1.0e-3,2.5''\<rparr>" "[]" "[]" "''0.1''"
        "Fin 3602879701896397 (- 55)" "''1.0e-3,2.5''" "[]" "[]" "[]" "Fin 0 0" "Fin 0 0"]
    by (simp add: iv_mock_def mock_def iv_trigger_def iv_readout_def py_float_0_1 py_sleep_0_1)
  have b: "fst (measure_iv \<lparr>smu = iv_mock ''2,0.5''\<rparr> []) = Inr (Fin 1 1, Fin 1 (- 1))"
    using measure_iv_pair [of "\<lparr>smu = iv_mock ''2,0.5''\<rparr>" "[]" "[]" "''0.1''"
        "Fin 3602879701896397 (- 55)" "''2,0.5''" "''2''" "''0.5''" "[]" "Fin 1 1" "Fin 1 (- 1)"]
    by (simp add: iv_mock_def mock_def iv_trigger_def iv_readout_def py_float_0_1 py_sleep_0_1
        py_float_two py_float_half)
  show ?thesis
    using a b by (simp only: nearest_1e_3 nearest_2_5)
qed

text \<open>
  Claim C3 as stated fails: on a transport that answers every query with
  \<^verbatim>\<open>1.0e-3,2.5\<close>, the read-out query too, \<^verbatim>\<open>measure_iv\<close> raises \<^verbatim>\<open>ValueError\<close> in the
  getter of \<^verbatim>\<open>delay\<close>, before it waits or reads out.
\<close>

theorem measure_iv_constant_mock_counterexample:
  "measure_iv \<lparr>smu = canned ''1.0e-3,2.5''\<rparr> [] =
     (Inl ValueError,
      [Write ''ireading, vreading = smua.measure.iv()'', Query ''print(smua.measure.delay)''])"
  by (simp add: measure_iv_def bind_def smu_write_eq delay_get_eq canned_def
      py_float_pair_rejected)

text \<open>
  Claim C7, as amended. \<^verbatim>\<open>measure_iv\<close> performs, in order: the write that
  triggers the dual reading, a query of the instrument's measure delay (the getter
  of \<^verbatim>\<open>delay\<close>), a wait of the delay that the instrument answered, and the read-out
  query; nothing else.
\<close>

theorem measure_iv_transactions:
  assumes "smu self h (Write iv_trigger) = Inr r0"
    and "smu self (h @ [Write iv_trigger]) (Query ''print(smua.measure.delay)'') = Inr dresp"
    and "py_float (py_strip dresp) = Inr d"
    and "py_sleep d = Inr ()"
  shows "snd (measure_iv self h) =
     h @ [Write iv_trigger, Query ''print(smua.measure.delay)'', Sleep d, Query iv_readout]"
  by (simp add: measure_iv_eq [OF assms])

theorem measure_iv_transactions_witness:
  "snd (measure_iv \<lparr>smu = iv_mock ''1.0e-3,2.5''\<rparr> []) =
     [Write ''ireading, vreading = smua.measure.iv()'', Query ''print(smua.measure.delay)'',
      Sleep (Fin 3602879701896397 (- 55)), Query ''printnumber(ireading,vreading)'']"
  using measure_iv_transactions [of "\<lparr>smu = iv_mock ''1.0e-3,2.5''\<rparr>" "[]" "[]" "''0.1''"
      "Fin 3602879701896397 (- 55)"]
  by (simp add: iv_mock_def mock_def iv_trigger_def iv_readout_def py_float_0_1 py_sleep_0_1)

text \<open>
  Claim C7 as stated fails: the history of one \<^verbatim>\<open>measure_iv\<close> holds two queries,
  the first of them between the trigger and the wait.
\<close>

theorem measure_iv_two_queries_counterexample:
  "filter is_query (snd (measure_iv \<lparr>smu = iv_mock ''1.0e-3,2.5''\<rparr> [])) =
     [Query ''print(smua.measure.delay)'', Query ''printnumber(ireading,vreading)'']"
  by (simp add: measure_iv_on_iv_mock iv_trigger_def iv_readout_def)

text \<open>
  Claim C8, as amended. \<^verbatim>\<open>float\<close> raises nothing but \<^verbatim>\<open>ValueError\<close>, and raises
  it on the empty string. Every operation that parses one token (the float-valued
  and the flag-like getters, \<^verbatim>\<open>measure_resistance\<close>, \<^verbatim>\<open>measure_power\<close>) fails with
  \<^verbatim>\<open>ValueError\<close> when its query is answered with a text that \<^verbatim>\<open>float\<close> rejects after
  stripping, and so does \<^verbatim>\<open>measure_iv\<close> when the query of its delay is answered
  so. Once \<^verbatim>\<open>measure_iv\<close> has reached its read-out, it fails with \<^verbatim>\<open>ValueError\<close>
  when \<^verbatim>\<open>float\<close> rejects the first part of the response (the empty response is
  such a one) or a second part that is there; when the response has no comma and
  \<^verbatim>\<open>float\<close> accepts it whole, it fails with \<^verbatim>\<open>IndexError\<close> at \<^verbatim>\<open>response[1]\<close>.
\<close>

theorem malformed_response:
  "(py_float (py_strip t) = Inl e \<longrightarrow>
      e = ValueError
      \<and> ((reads a = Some Float_valued \<or> reads a = Some Flag_like) \<and>
           smu self g (request a) = Inr t \<longrightarrow>
             fst (access self a g) = Inl ValueError)
      \<and> (smu self g (Query ''print(smua.measure.r())'') = Inr t \<longrightarrow>
             fst (measure_resistance self g) = Inl ValueError)
      \<and> (smu self g (Query ''print(smua.measure.p())'') = Inr t \<longrightarrow>
             fst (measure_power self g) = Inl ValueError)
      \<and> (smu self g (Write iv_trigger) = Inr w \<and>
           smu self (g @ [Write iv_trigger]) (Query ''print(smua.measure.delay)'') = Inr t \<longrightarrow>
             fst (measure_iv self g) = Inl ValueError))
   \<and> py_float (py_strip []) = Inl ValueError
   \<and> (smu self h (Write iv_trigger) = Inr r0 \<and>
        smu self (h @ [Write iv_trigger]) (Query ''print(smua.measure.delay)'') = Inr dresp \<and>
        py_float (py_strip dresp) = Inr d \<and> py_sleep d = Inr () \<and>
        smu self (h @ [Write iv_trigger, Query ''print(smua.measure.delay)'', Sleep d])
          (Query iv_readout) = Inr r \<longrightarrow>
          (py_float (hd (py_split (CHR '','') r)) = Inl x \<longrightarrow>
             fst (measure_iv self h) = Inl ValueError)
        \<and> (py_float (hd (py_split (CHR '','') r)) = Inr i \<and> CHR '','' \<notin> set r \<longrightarrow>
             fst (measure_iv self h) = Inl IndexError)
        \<and> (py_split (CHR '','') r = p0 # p1 # rest \<and> py_float p0 = Inr i \<and>
             py_float p1 = Inl x \<longrightarrow>
             fst (measure_iv self h) = Inl ValueError))"
proof (intro conjI impI)
  show "e = ValueError" if "py_float (py_strip t) = Inl e"
    using that by (rule py_float_raises_ValueError)
  show "fst (access self a g) = Inl ValueError"
    if m: "py_float (py_strip t) = Inl e"
      and "(reads a = Some Float_valued \<or> reads a = Some Flag_like) \<and>
        smu self g (request a) = Inr t"
    using that(2) parse_float_token_malformed [OF m] parse_flag_token_malformed [OF m]
    by (auto simp add: access_eq)
  show "fst (measure_resistance self g) = Inl ValueError"
    if m: "py_float (py_strip t) = Inl e"
      and "smu self g (Query ''print(smua.measure.r())'') = Inr t"
    using that py_float_raises_ValueError [OF m]
    by (simp add: measure_resistance_def single_token_eq)
  show "fst (measure_power self g) = Inl ValueError"
    if m: "py_float (py_strip t) = Inl e"
      and "smu self g (Query ''print(smua.measure.p())'') = Inr t"
    using that py_float_raises_ValueError [OF m]
    by (simp add: measure_power_def single_token_eq)
  show "fst (measure_iv self g) = Inl ValueError"
    if m: "py_float (py_strip t) = Inl e"
      and q: "smu self g (Write iv_trigger) = Inr w \<and>
        smu self (g @ [Write iv_trigger]) (Query ''print(smua.measure.delay)'') = Inr t"
  proof -
    from q have "smu self g (Write iv_trigger) = Inr w"
      and "smu self (g @ [Write iv_trigger]) (Query ''print(smua.measure.delay)'') = Inr t"
      by simp_all
    then show ?thesis
      using m by (simp add: measure_iv_delay_rejected)
  qed
  show "py_float (py_strip []) = Inl ValueError"
    by (rule py_float_empty)
next
  assume pre: "smu self h (Write iv_trigger) = Inr r0 \<and>
      smu self (h @ [Write iv_trigger]) (Query ''print(smua.measure.delay)'') = Inr dresp \<and>
      py_float (py_strip dresp) = Inr d \<and> py_sleep d = Inr () \<and>
      smu self (h @ [Write iv_trigger, Query ''print(smua.measure.delay)'', Sleep d])
        (Query iv_readout) = Inr r"
  then have iv: "measure_iv self h =
     ((case py_float (hd (py_split (CHR '','') r)) of
         Inl e \<Rightarrow> Inl e
       | Inr i \<Rightarrow>
           (case tl (py_split (CHR '','') r) of
              [] \<Rightarrow> Inl IndexError
            | r1 # rest \<Rightarrow> (case py_float r1 of Inl e \<Rightarrow> Inl e | Inr v \<Rightarrow> Inr (i, v)))),
      h @ [Write iv_trigger, Query ''print(smua.measure.delay)'', Sleep d, Query iv_readout])"
    by (simp add: measure_iv_eq [of self h r0 dresp d])
  {
    assume a: "py_float (hd (py_split (CHR '','') r)) = Inl x"
    then have "x = ValueError"
      by (rule py_float_raises_ValueError)
    with a show "fst (measure_iv self h) = Inl ValueError"
      by (simp add: iv)
  }
  {
    assume a: "py_float (hd (py_split (CHR '','') r)) = Inr i \<and> CHR '','' \<notin> set r"
    then have s: "py_split (CHR '','') r = [r]"
      by (simp add: py_split_no_sep)
    with a have "py_float r = Inr i"
      by simp
    with s show "fst (measure_iv self h) = Inl IndexError"
      by (simp add: iv)
  }
  {
    assume a: "py_split (CHR '','') r = p0 # p1 # rest \<and> py_float p0 = Inr i \<and>
        py_float p1 = Inl x"
    then have "x = ValueError"
      using py_float_raises_ValueError by blast
    with a show "fst (measure_iv self h) = Inl ValueError"
      by (simp add: iv)
  }
qed

theorem malformed_response_witness:
  "fst (access \<lparr>smu = canned []\<rparr> (Get Nplc) []) = Inl ValueError
   \<and> fst (access \<lparr>smu = canned []\<rparr> (Get Autorange_i) []) = Inl ValueError
   \<and> fst (measure_resistance \<lparr>smu = canned []\<rparr> []) = Inl ValueError
   \<and> fst (measure_power \<lparr>smu = canned []\<rparr> []) = Inl ValueError
   \<and> fst (measure_iv \<lparr>smu = canned []\<rparr> []) = Inl ValueError
   \<and> fst (measure_iv \<lparr>smu = iv_mock []\<rparr> []) = Inl ValueError
   \<and> fst (measure_iv \<lparr>smu = iv_mock ''1.0,abc''\<rparr> []) = Inl ValueError
   \<and> fst (measure_iv \<lparr>smu = iv_mock ''2''\<rparr> []) = Inl IndexError"
proof -
  have e: "py_float [] = Inl ValueError"
    using py_float_empty by (simp add: py_strip_empty)
  have c: "fst (access \<lparr>smu = canned []\<rparr> (Get Nplc) []) = Inl ValueError
     \<and> fst (measure_resistance \<lparr>smu = canned []\<rparr> []) = Inl ValueError
     \<and> fst (measure_power \<lparr>smu = canned []\<rparr> []) = Inl ValueError
     \<and> fst (measure_iv \<lparr>smu = canned []\<rparr> []) = Inl ValueError
     \<and> fst (measure_iv \<lparr>smu = iv_mock []\<rparr> []) = Inl ValueError"
    using malformed_response [of "[]" ValueError "Get Nplc" "\<lparr>smu = canned []\<rparr>" "[]" "[]"
        "[]" "[]" "''0.1''" "Fin 3602879701896397 (- 55)" "[]" ValueError "Fin 0 0" "[]" "[]" "[]"]
      malformed_response [of "[]" ValueError "Get Nplc" "\<lparr>smu = iv_mock []\<rparr>" "[]" "[]"
        "[]" "[]" "''0.1''" "Fin 3602879701896397 (- 55)" "[]" ValueError "Fin 0 0" "[]" "[]" "[]"]
    by (simp add: canned_def iv_mock_def mock_def iv_trigger_def iv_readout_def py_float_0_1
        py_sleep_0_1 e py_strip_empty del: access.simps)
  have f: "fst (access \<lparr>smu = canned []\<rparr> (Get Autorange_i) []) = Inl ValueError"
    using malformed_response [of "[]" ValueError "Get Autorange_i" "\<lparr>smu = canned []\<rparr>" "[]"
        "[]" "[]" "[]" "''0.1''" "Fin 3602879701896397 (- 55)" "[]" ValueError "Fin 0 0" "[]" "[]"
        "[]"]
    by (simp add: canned_def e py_strip_empty del: access.simps)
  have s: "py_split (CHR '','') ''1.0,abc'' = [''1.0'', ''abc'']"
    by simp
  have g: "fst (measure_iv \<lparr>smu = iv_mock ''1.0,abc''\<rparr> []) = Inl ValueError"
    using malformed_response [of "[]" ValueError "Get Nplc" "\<lparr>smu = iv_mock ''1.0,abc''\<rparr>"
        "[]" "[]" "[]" "[]" "''0.1''" "Fin 3602879701896397 (- 55)" "''1.0,abc''" ValueError
        "Fin 1 0" "''1.0''" "''abc''" "[]"]
    by (simp add: iv_mock_def mock_def iv_trigger_def iv_readout_def py_float_0_1
        py_sleep_0_1 py_float_1_0 py_float_abc del: access.simps)
  have i: "fst (measure_iv \<lparr>smu = iv_mock ''2''\<rparr> []) = Inl IndexError"
    using malformed_response [of "[]" ValueError "Get Nplc" "\<lparr>smu = iv_mock ''2''\<rparr>"
        "[]" "[]" "[]" "[]" "''0.1''" "Fin 3602879701896397 (- 55)" "''2''" ValueError
        "Fin 1 1" "[]" "[]" "[]"]
    by (simp add: iv_mock_def mock_def iv_trigger_def iv_readout_def py_float_0_1
        py_sleep_0_1 py_float_two del: access.simps)
  show ?thesis
    using c f g i by simp
qed

text \<open>
  Claim C8 as stated fails: a response with a single numeric token makes
  \<^verbatim>\<open>measure_iv\<close> raise \<^verbatim>\<open>IndexError\<close>, which is no float-conversion error.
\<close>

theorem measure_iv_single_token_counterexample:
  "fst (measure_iv \<lparr>smu = iv_mock ''1.0''\<rparr> []) = Inl IndexError"
  by (simp add: measure_iv_on_iv_mock py_float_1_0)

section \<open>Getters\<close>

text \<open>
  Claim C4, as amended. Every getter issues exactly one query, \<^verbatim>\<open>print(path)\<close>
  for the path of its property. The getters of the float-valued properties return
  the stripped answer parsed by \<^verbatim>\<open>float\<close>, so \<^verbatim>\<open>5.000000E+00\<close> with a newline gives
  \<^verbatim>\<open>5.0\<close>; the flag-like getters convert it to a float, an int and a bool, so that
  answer gives \<^verbatim>\<open>True\<close>; the getter of \<^verbatim>\<open>source_function\<close> returns the answer as
  the string it is.
\<close>

theorem getters_parse:
  assumes "reads a = Some k"
    and "smu self h (request a) = Inr r"
  shows "access self a h = (parse_as k r, h @ [request a]) \<and> is_query (request a)
     \<and> parse_as k (''5.000000E+00'' @ [CHR 0x0A]) =
         Inr (case k of
                Float_valued \<Rightarrow> VFloat (Fin 5 0)
              | Flag_like \<Rightarrow> VBool True
              | Raw_string \<Rightarrow> VStr (''5.000000E+00'' @ [CHR 0x0A]))"
proof (intro conjI)
  show "access self a h = (parse_as k r, h @ [request a])"
    using assms by (simp add: access_eq)
  show "is_query (request a)"
    using assms(1) by (cases a) simp_all
  show "parse_as k (''5.000000E+00'' @ [CHR 0x0A]) =
      Inr (case k of
             Float_valued \<Rightarrow> VFloat (Fin 5 0)
           | Flag_like \<Rightarrow> VBool True
           | Raw_string \<Rightarrow> VStr (''5.000000E+00'' @ [CHR 0x0A]))"
    by (cases k) (simp_all only: parse_as.simps parse_float_five parse_flag_five kind.case)
qed

theorem getters_parse_witness:
  "access \<lparr>smu = canned (''5.000000E+00'' @ [CHR 0x0A])\<rparr> (Get Level_v) [] =
     (Inr (VFloat (Fin 5 0)), [Query ''print(smua.source.levelv)''])
   \<and> access \<lparr>smu = canned (''5.000000E+00'' @ [CHR 0x0A])\<rparr> Get_output [] =
     (Inr (VBool True), [Query ''print(smua.source.output)''])"
  using getters_parse [of "Get Level_v" Float_valued
      "\<lparr>smu = canned (''5.000000E+00'' @ [CHR 0x0A])\<rparr>" "[]" "''5.000000E+00'' @ [CHR 0x0A]"]
    getters_parse [of Get_output Flag_like
      "\<lparr>smu = canned (''5.000000E+00'' @ [CHR 0x0A])\<rparr>" "[]" "''5.000000E+00'' @ [CHR 0x0A]"]
  by (simp add: canned_def output_path_def del: access.simps)

text \<open>
  Claim C4 as stated fails for \<^verbatim>\<open>source_function\<close>: its getter returns the
  response string, newline included, and not the float \<^verbatim>\<open>5.0\<close>.
\<close>

theorem source_function_unparsed_counterexample:
  "fst (access \<lparr>smu = canned (''5.000000E+00'' @ [CHR 0x0A])\<rparr> (Get Source_function) []) =
     Inr (VStr (''5.000000E+00'' @ [CHR 0x0A]))
   \<and> fst (access \<lparr>smu = canned (''5.000000E+00'' @ [CHR 0x0A])\<rparr> (Get Source_function) []) \<noteq>
     Inr (VFloat (Fin 5 0))"
  by (simp add: source_function_get_def bind_def return_def smu_query_eq canned_def)

text \<open>
  Claim C10. A flag-like getter (\<^verbatim>\<open>output\<close>, \<^verbatim>\<open>autorange_i\<close>, \<^verbatim>\<open>autorange_v\<close>)
  converts the stripped answer with \<^verbatim>\<open>float\<close>, truncates the float with \<^verbatim>\<open>int\<close>
  and returns whether the integer is not zero; for a finite float that is whether
  its magnitude is at least one.
\<close>

theorem flag_getters_truncate:
  assumes "a = Get_output \<or> a = Get Autorange_i \<or> a = Get Autorange_v"
    and "smu self h (request a) = Inr r"
    and "py_float (py_strip r) = Inr f"
    and "py_int f = Inr n"
  shows "fst (access self a h) = Inr (VBool (n \<noteq> 0))
     \<and> (f = Fin m e \<longrightarrow> (n \<noteq> 0) = (1 \<le> \<bar>real_of_int m * 2 powi e\<bar>))"
proof (intro conjI impI)
  have "reads a = Some Flag_like"
    using assms(1) by auto
  then show "fst (access self a h) = Inr (VBool (n \<noteq> 0))"
    using assms(2-4) by (simp add: access_eq parse_flag_token_def)
  show "(n \<noteq> 0) = (1 \<le> \<bar>real_of_int m * 2 powi e\<bar>)" if "f = Fin m e"
    using assms(4) that py_int_nonzero_iff [of m e n] by simp
qed

text \<open>The answers \<^verbatim>\<open>0.5\<close> and \<^verbatim>\<open>0.000000E+00\<close> give \<^verbatim>\<open>False\<close>, the answer \<^verbatim>\<open>2\<close> gives \<^verbatim>\<open>True\<close>.\<close>

theorem flag_getters_truncate_witness:
  "fst (access \<lparr>smu = canned ''0.5''\<rparr> Get_output []) = Inr (VBool False)
   \<and> fst (access \<lparr>smu = canned ''0.000000E+00''\<rparr> (Get Autorange_i) []) = Inr (VBool False)
   \<and> fst (access \<lparr>smu = canned ''2''\<rparr> (Get Autorange_v) []) = Inr (VBool True)"
  using flag_getters_truncate [of Get_output "\<lparr>smu = canned ''0.5''\<rparr>" "[]" "''0.5''"
      "Fin 1 (- 1)" 0 1 "- 1"]
    flag_getters_truncate [of "Get Autorange_i" "\<lparr>smu = canned ''0.000000E+00''\<rparr>" "[]"
      "''0.000000E+00''" "Fin 0 0" 0 0 0]
    flag_getters_truncate [of "Get Autorange_v" "\<lparr>smu = canned ''2''\<rparr>" "[]" "''2''"
      "Fin 1 1" 2 1 1]
  by (simp add: canned_def py_float_0_5 py_float_zero_exp py_float_2 del: access.simps)

section \<open>No local state\<close>

text \<open>
  Claim C9. Every invocation of an accessor makes one call on the transport, and
  its outcome is a function of the transport's reaction to that call alone. The
  delay given to the constructor is written to the instrument, the session that
  \<^verbatim>\<open>__init__\<close> leaves holds the transport handle and nothing else, and \<^verbatim>\<open>measure_iv\<close>
  waits for the delay that the instrument answers to the query it makes.
\<close>

theorem accessors_round_trip:
  "access self a h = (decode a (smu self h (request a)), h @ [request a])
   \<and> (writes_succeed device \<longrightarrow>
        fst (init device delay h) = Inr \<lparr>smu = device\<rparr>
        \<and> last (snd (init device delay h)) = Write (''smua.measure.delay = '' @ py_format delay))
   \<and> (smu self h (Write iv_trigger) = Inr r0
        \<and> smu self (h @ [Write iv_trigger]) (request (Get Delay)) = Inr dresp
        \<and> py_float (py_strip dresp) = Inr d \<and> py_sleep d = Inr () \<longrightarrow>
        take 3 (drop (length h) (snd (measure_iv self h))) =
          [Write iv_trigger, request (Get Delay), Sleep d])"
proof (intro conjI impI)
  show "access self a h = (decode a (smu self h (request a)), h @ [request a])"
    by (rule access_eq)
  show "fst (init device delay h) = Inr \<lparr>smu = device\<rparr>" if "writes_succeed device"
    by (simp add: init_ok [OF that])
  show "last (snd (init device delay h)) = Write (''smua.measure.delay = '' @ py_format delay)"
    if "writes_succeed device"
    by (simp add: init_ok [OF that])
  show "take 3 (drop (length h) (snd (measure_iv self h))) =
      [Write iv_trigger, request (Get Delay), Sleep d]"
    if "smu self h (Write iv_trigger) = Inr r0
        \<and> smu self (h @ [Write iv_trigger]) (request (Get Delay)) = Inr dresp
        \<and> py_float (py_strip dresp) = Inr d \<and> py_sleep d = Inr ()"
  proof -
    from that have "snd (measure_iv self h) =
        h @ [Write iv_trigger, Query ''print(smua.measure.delay)'', Sleep d, Query iv_readout]"
      by (simp add: measure_iv_eq [of self h r0 dresp d])
    then show ?thesis
      by simp
  qed
qed

text \<open>
  A session constructed with the delay \<^verbatim>\<open>5\<close> on an instrument that answers
  \<^verbatim>\<open>0.1\<close>: the getter returns \<^verbatim>\<open>0.1\<close> and \<^verbatim>\<open>measure_iv\<close> waits \<^verbatim>\<open>0.1\<close> seconds.
\<close>

theorem accessors_round_trip_witness:
  "access \<lparr>smu = iv_mock []\<rparr> (Set Delay (PInt 5)) [] =
     (Inr VNone, [Write ''smua.measure.delay = 5''])
   \<and> access \<lparr>smu = iv_mock []\<rparr> (Get Delay) [Write ''smua.measure.delay = 5''] =
     (Inr (VFloat (Fin 3602879701896397 (- 55))),
      [Write ''smua.measure.delay = 5'', Query ''print(smua.measure.delay)''])
   \<and> fst (init (iv_mock []) (PInt 5) []) = Inr \<lparr>smu = iv_mock []\<rparr>
   \<and> last (snd (init (iv_mock []) (PInt 5) [])) = Write ''smua.measure.delay = 5''
   \<and> take 3 (snd (measure_iv \<lparr>smu = iv_mock []\<rparr> [])) =
       [Write ''ireading, vreading = smua.measure.iv()'', Query ''print(smua.measure.delay)'',
        Sleep (Fin 3602879701896397 (- 55))]"
proof -
  have p: "parse_float_token ''0.1'' = Inr (VFloat (Fin 3602879701896397 (- 55)))"
    by (simp only: parse_float_token_def py_float_0_1) simp
  show ?thesis
    using accessors_round_trip [of "\<lparr>smu = iv_mock []\<rparr>" "Set Delay (PInt 5)" "[]" "iv_mock []"
        "PInt 5" "[]" "''0.1''" "Fin 3602879701896397 (- 55)"]
      accessors_round_trip [of "\<lparr>smu = iv_mock []\<rparr>" "Get Delay"
        "[Write ''smua.measure.delay = 5'']" "iv_mock []"
        "PInt 5" "[]" "''0.1''" "Fin 3602879701896397 (- 55)"]
    by (simp add: iv_mock_def mock_def writes_succeed_def iv_trigger_def py_str_int_5
        py_float_0_1 py_sleep_0_1 p del: access.simps)
qed

section \<open>Composite setup routines\<close>

text \<open>
  Claim C5, as amended. \<^verbatim>\<open>setup_for_IV_measurement\<close> is the sequence of
  \<^verbatim>\<open>reset_device\<close> and six setters. \<^verbatim>\<open>setup_for_resistance_measurement\<close> first
  writes \<^verbatim>\<open>smua.measure.r(smua.nvbuffer1)\<close> to the transport itself and then is the
  sequence of \<^verbatim>\<open>reset_device\<close> and seven setters. On a transport whose writes do
  not raise, such a sequence emits exactly the commands of its steps, in order,
  and that first command is the command of no step.
\<close>

theorem setup_routines_compose:
  "setup_for_IV_measurement self iLimit NPLC = run_all self (iv_settings iLimit NPLC)
   \<and> setup_for_resistance_measurement self =
       bind (smu_write self ''smua.measure.r(smua.nvbuffer1)'')
         (\<lambda>_. run_all self resistance_settings)
   \<and> (writes_succeed (smu self) \<longrightarrow>
        snd (run_all self xs h) = h @ map (\<lambda>x. Write (primitive_command x)) xs)
   \<and> primitive_command x \<noteq> ''smua.measure.r(smua.nvbuffer1)''"
proof (intro conjI impI)
  show "primitive_command x \<noteq> ''smua.measure.r(smua.nvbuffer1)''"
    by (rule no_primitive_writes_buffer_read)
  show "setup_for_IV_measurement self iLimit NPLC = run_all self (iv_settings iLimit NPLC)"
    by (simp add: setup_for_IV_measurement_def iv_settings_def bind_return)
  show "setup_for_resistance_measurement self =
      bind (smu_write self ''smua.measure.r(smua.nvbuffer1)'')
        (\<lambda>_. run_all self resistance_settings)"
    by (simp add: setup_for_resistance_measurement_def resistance_settings_def
        bind_return)
  show "snd (run_all self xs h) = h @ map (\<lambda>x. Write (primitive_command x)) xs"
    if "writes_succeed (smu self)"
    using that by (simp add: run_all_ok)
qed

theorem setup_routines_compose_witness:
  "snd (setup_for_IV_measurement \<lparr>smu = mock []\<rparr> (PFloat lit_1e_3) (PInt 5) []) =
     [Write ''smua.reset()'', Write ''smua.source.func = 1'', Write ''smua.source.levelv = 0'',
      Write ''smua.measure.autorangei = 1'', Write ''smua.measure.autorangev = 1'',
      Write ''smua.source.limiti = 0.001'', Write ''smua.measure.nplc = 5'']"
proof -
  have w: "writes_succeed (smu \<lparr>smu = mock []\<rparr>)"
    by (simp add: writes_succeed_def mock_def)
  show ?thesis
    using setup_routines_compose
      [of "\<lparr>smu = mock []\<rparr>" "PFloat lit_1e_3" "PInt 5"
        "iv_settings (PFloat lit_1e_3) (PInt 5)" "[]" Reset_device] w
    by (simp add: iv_settings_def py_str_int_0 py_str_int_1 py_str_int_5 repr_1e_3)
qed

text \<open>
  Claim C5 as stated fails for \<^verbatim>\<open>setup_for_resistance_measurement\<close>: its first
  command is the command of no setter, so its commands are not those of the
  sequence of setters.
\<close>

theorem resistance_setup_extra_write_counterexample:
  "snd (setup_for_resistance_measurement \<lparr>smu = mock []\<rparr> []) =
     [Write ''smua.measure.r(smua.nvbuffer1)'', Write ''smua.reset()'',
      Write ''smua.source.func = 0'', Write ''smua.source.leveli = 0.001'',
      Write ''smua.measure.autorangev = 1'', Write ''smua.measure.nplc = 5'',
      Write ''smua.measure.delay = 0.1'', Write ''smua.measure.rangev = 20'',
      Write ''smua.measure.rangei = 0.001'']
   \<and> snd (setup_for_resistance_measurement \<lparr>smu = mock []\<rparr> []) \<noteq>
       snd (run_all \<lparr>smu = mock []\<rparr> resistance_settings [])"
proof -
  have w: "writes_succeed (smu \<lparr>smu = mock []\<rparr>)"
    by (simp add: writes_succeed_def mock_def)
  have ok: "smu_write \<lparr>smu = mock []\<rparr> cmd g = (Inr (), g @ [Write cmd])" for cmd g
    using w by (rule smu_write_ok)
  have a: "snd (setup_for_resistance_measurement \<lparr>smu = mock []\<rparr> []) =
     [Write ''smua.measure.r(smua.nvbuffer1)'', Write ''smua.reset()'',
      Write ''smua.source.func = 0'', Write ''smua.source.leveli = 0.001'',
      Write ''smua.measure.autorangev = 1'', Write ''smua.measure.nplc = 5'',
      Write ''smua.measure.delay = 0.1'', Write ''smua.measure.rangev = 20'',
      Write ''smua.measure.rangei = 0.001'']"
    by (simp add: setup_for_resistance_measurement_def reset_device_def source_function_set_def
        level_i_set_def autorange_v_set_def nplc_set_def delay_set_def range_v_set_def
        range_i_set_def bind_def ok py_str_int_0 py_str_int_1 py_str_int_5 py_str_int_20
        repr_1e_3 repr_0_1)
  have b: "snd (run_all \<lparr>smu = mock []\<rparr> resistance_settings []) =
     [Write ''smua.reset()'',
      Write ''smua.source.func = 0'', Write ''smua.source.leveli = 0.001'',
      Write ''smua.measure.autorangev = 1'', Write ''smua.measure.nplc = 5'',
      Write ''smua.measure.delay = 0.1'', Write ''smua.measure.rangev = 20'',
      Write ''smua.measure.rangei = 0.001'']"
    by (simp only: run_all_ok [OF w] snd_conv)
      (simp add: resistance_settings_def py_str_int_0 py_str_int_1 py_str_int_5 py_str_int_20
        repr_1e_3 repr_0_1)
  show ?thesis
    by (simp only: a b) simp
qed

end
